theory Spec2Isabelle
  imports Main "HOL-Library.Word" "HOL-Library.Multiset"
begin

section \<open>Values of the Go runtime the proxy engine handles\<close>

text \<open>
  \<open>net.IP\<close> is a byte slice, \<open>time.Duration\<close> and the byte count of \<open>ReadFrom\<close> are
  \<open>int64\<close> (a 64-bit word read with \<open>sint\<close>), the traffic counters are \<open>uint64\<close>
  (a 64-bit word read with \<open>unat\<close>), a port is a Go \<open>int\<close>, an instant is a number of
  nanoseconds.
\<close>

record TCPAddr =
  IP :: "8 word list"
  Port :: int

text \<open>
  \<open>serve\<close> receives a \<open>net.Conn\<close> and downcasts it to \<open>*net.TCPConn\<close>; a connection
  of any other dynamic type makes the type assertion panic.
\<close>

datatype conn =
    TCPConn (LocalAddr: TCPAddr) (RemoteAddr: TCPAddr)
  | OtherConn

text \<open>
  Errors. \<open>EOF\<close> is \<open>io.EOF\<close>, \<open>ErrClosed\<close> is \<open>net.ErrClosed\<close>, \<open>ErrProxyClosed\<close> the
  package's own sentinel. \<open>NetError timeout temporary inner\<close> is an error that implements
  \<open>net.Error\<close> (such as \<open>*net.OpError\<close>) with the answers of its \<open>Timeout()\<close> and
  \<open>Temporary()\<close> methods and the error it wraps. \<open>ErrorString\<close> is any other error.
  The Go value \<open>nil\<close> of type \<open>error\<close> is \<open>None\<close> of \<open>go_error option\<close>.
\<close>

datatype go_error =
    EOF
  | ErrClosed
  | ErrProxyClosed
  | NetError (Timeout: bool) (Temporary: bool) (Err: go_error)
  | ErrorString string

text \<open>\<open>errors.Is\<close>: the error itself or any error of its unwrap chain is the target.\<close>

primrec errors_Is :: "go_error \<Rightarrow> go_error \<Rightarrow> bool" where
  "errors_Is EOF target = (EOF = target)"
| "errors_Is ErrClosed target = (ErrClosed = target)"
| "errors_Is ErrProxyClosed target = (ErrProxyClosed = target)"
| "errors_Is (NetError t p inner) target = (NetError t p inner = target \<or> errors_Is inner target)"
| "errors_Is (ErrorString s) target = (ErrorString s = target)"

text \<open>\<open>nErr, ok := err.(net.Error); ok && nErr.Timeout()\<close> and the same for \<open>Temporary()\<close>.\<close>

fun is_net_timeout :: "go_error \<Rightarrow> bool" where
  "is_net_timeout (NetError t p inner) = t"
| "is_net_timeout e = False"

fun is_net_temporary :: "go_error \<Rightarrow> bool" where
  "is_net_temporary (NetError t p inner) = p"
| "is_net_temporary e = False"

section \<open>Address utilities\<close>

text \<open>\<open>isZeros\<close>: the loop returns false at the first non-zero byte.\<close>

fun isZeros :: "8 word list \<Rightarrow> bool" where
  "isZeros [] = True"
| "isZeros (b # bs) = (if b \<noteq> 0 then False else isZeros bs)"

text \<open>\<open>isIPv4\<close>, with \<open>net.IPv4len = 4\<close> and \<open>net.IPv6len = 16\<close>; \<open>ip[0:10]\<close> is \<open>take 10 ip\<close>.\<close>

definition isIPv4 :: "8 word list \<Rightarrow> bool" where
  "isIPv4 ip \<longleftrightarrow>
     length ip = 4 \<or>
     (length ip = 16 \<and> isZeros (take 10 ip) \<and> ip ! 10 = 0xff \<and> ip ! 11 = 0xff)"

text \<open>Base-10 rendering, as \<open>strconv.Itoa\<close> and \<open>strconv.AppendInt(_, _, 10)\<close> give it.\<close>

fun digits :: "nat \<Rightarrow> string" where
  "digits n = (if n < 10 then [''0123456789'' ! n]
               else digits (n div 10) @ [''0123456789'' ! (n mod 10)])"

declare digits.simps [simp del]

definition Itoa :: "int \<Rightarrow> string" where
  "Itoa i = (if i < 0 then CHR ''-'' # digits (nat (- i)) else digits (nat i))"

text \<open>
  \<open>net.IP.String\<close> of the standard library: \<open><nil>\<close> for the empty slice, dotted decimal
  for a 4-byte address and for an IPv4-mapped 16-byte address (the cases of \<open>To4\<close>). The
  text of every other address (colon-hex for 16 bytes, \<open>?\<close> and hexadecimal for any other
  length) is the parameter \<open>ip6\<close>.
\<close>

definition To4 :: "8 word list \<Rightarrow> 8 word list option" where
  "To4 ip =
     (if length ip = 4 then Some ip
      else if length ip = 16 \<and> isZeros (take 10 ip) \<and> ip ! 10 = 0xff \<and> ip ! 11 = 0xff
        then Some (drop 12 ip)
      else None)"

definition IP_String :: "(8 word list \<Rightarrow> string) \<Rightarrow> 8 word list \<Rightarrow> string" where
  "IP_String ip6 ip =
     (if ip = [] then ''<nil>''
      else case To4 ip of
        Some [a, b, c, d] \<Rightarrow>
          digits (unat a) @ ''.'' @ digits (unat b) @ ''.'' @ digits (unat c) @ ''.'' @ digits (unat d)
      | _ \<Rightarrow> ip6 ip)"

section \<open>Effects\<close>

text \<open>
  A session has two sockets: \<open>Front\<close> is \<open>sTCPConn\<close> (accepted from the listener) and
  \<open>Back\<close> is \<open>dTCPConn\<close> (dialed). Its two completion channels are \<open>errIn\<close> and \<open>errOut\<close>.
  \<open>Probe\<close> is the connection that \<open>Proxy\<close> dials and closes before it listens.
\<close>

datatype sock = Front | Back | Probe

datatype chan = ErrIn | ErrOut

text \<open>The goroutines the package starts with \<open>go\<close>.\<close>

datatype goroutine =
    CopyConn bool
  | Serve conn string
  | StatsLoop

text \<open>
  Every call that acts on a socket, a channel, the shared counters, the logger or the
  scheduler is an event; a goroutine's run is the list of its events in program order.
  \<open>ReadFrom dst src n err\<close> is a call \<open>dst.ReadFrom(src)\<close> that moved \<open>n\<close> bytes and
  returned \<open>err\<close>. \<open>AddOpen d\<close> is \<open>atomic.AddInt64(&proxy.open, d)\<close>. \<open>LogInfo src dst\<close>
  is the log entry of \<open>serve\<close> with its \<open>src\<close> and \<open>dst\<close> fields (its \<open>count\<close> field is a
  read of \<open>open\<close>); \<open>LogError msg err\<close> is an error entry with its \<open>msg\<close> and \<open>error\<close>
  fields. \<open>Sleep d\<close> is \<open>time.Sleep\<close> of \<open>d\<close> nanoseconds.
\<close>

datatype event =
    Dial string
  | ConnClose sock
  | Write sock string
  | ReadFrom sock sock "64 word" "go_error option"
  | SetReadDeadline sock int
  | SetWriteDeadline sock int
  | AddBytesIn "64 word"
  | AddBytesOut "64 word"
  | Send chan go_error
  | CloseChan chan
  | AddOpen "64 word"
  | WgAdd int
  | WgDone
  | PoolGet
  | PoolPut
  | Go goroutine
  | LogInfo string string
  | LogError string go_error
  | Sleep int
  | Listen string
  | CloseListener

section \<open>Idle deadline setter\<close>

text \<open>
  \<open>timeoutFunc d fn\<close> returns a closure. The closure reads the clock when it is invoked:
  the instant \<open>now\<close> is its argument here, and its result is the list of calls it makes.
\<close>

definition timeoutFunc :: "64 word \<Rightarrow> (int \<Rightarrow> event) \<Rightarrow> (int \<Rightarrow> event list)" where
  "timeoutFunc d fn = (if sint d < 1 then (\<lambda>now. []) else (\<lambda>now. [fn (now + sint d)]))"

section \<open>Copy pump\<close>

text \<open>
  One entry of the script is one iteration of the loop: the clock reading of
  \<open>setTimeout()\<close>, and the byte count and error that \<open>dst.ReadFrom(src)\<close> returns. The
  result is the events of the loop and whether the loop was left (\<open>break\<close>); with the
  script used up the pump has not returned from \<open>ReadFrom\<close>.
\<close>

fun addBytes :: "bool \<Rightarrow> 64 word \<Rightarrow> event" where
  "addBytes isClientToServer n = (if isClientToServer then AddBytesIn n else AddBytesOut n)"

fun copyLoop ::
  "sock \<Rightarrow> sock \<Rightarrow> chan \<Rightarrow> (int \<Rightarrow> event list) \<Rightarrow> bool \<Rightarrow>
   (int \<times> 64 word \<times> go_error option) list \<Rightarrow> event list \<times> bool" where
  "copyLoop dst src errChan setTimeout isClientToServer [] = ([], False)"
| "copyLoop dst src errChan setTimeout isClientToServer ((now, n, err) # script) =
     (let call = setTimeout now @ [ReadFrom dst src n err] in
      if err = None \<or> err = Some EOF \<or> err = Some ErrClosed
        then (call @ [addBytes isClientToServer n], True)
      else if is_net_timeout (the err)
        then (if sint n < 1 then (call, True)
              else (let (evs, left) = copyLoop dst src errChan setTimeout isClientToServer script
                    in (call @ [addBytes isClientToServer n] @ evs, left)))
      else (call @ [Send errChan (the err)], True))"

text \<open>The deferred function runs when the loop is left: \<open>close(errChan)\<close>, then \<open>dst.Close()\<close>.\<close>

definition copyConn ::
  "sock \<Rightarrow> sock \<Rightarrow> chan \<Rightarrow> (int \<Rightarrow> event list) \<Rightarrow> bool \<Rightarrow>
   (int \<times> 64 word \<times> go_error option) list \<Rightarrow> event list \<times> bool" where
  "copyConn dst src errChan setTimeout isClientToServer script =
     (let (evs, left) = copyLoop dst src errChan setTimeout isClientToServer script
      in if left then (evs @ [CloseChan errChan, ConnClose dst], True) else (evs, False))"

section \<open>The proxy instance\<close>

text \<open>
  The struct \<open>TCPProxy\<close>. \<open>lnCfg\<close> is the listener configuration's \<open>KeepAlive\<close>, \<open>dialer\<close>
  the dialer's \<open>KeepAlive\<close> and \<open>Timeout\<close>. A context is named by a number: \<open>baseCtx\<close> is
  the proxy's context and \<open>cancel\<close> the context its cancel function cancels; \<open>None\<close> is
  the nil of the zero-valued struct. \<open>serveWg\<close> is the counter of the wait group,
  \<open>doOnce\<close> whether the \<open>sync.Once\<close> has run, \<open>ppool\<close> the capacity of the buffers
  that the pool's \<open>New\<close> makes, \<open>statsTimer\<close> the number of the timer the field points to.
\<close>

record TCPProxy =
  Name :: string
  ProxyProto :: bool
  DialTimeout :: "64 word"
  ClientTimeout :: "64 word"
  ServerTimeout :: "64 word"
  ClientKeepAlive :: "64 word"
  ServerKeepAlive :: "64 word"
  lnCfg :: "64 word"
  dialer :: "64 word \<times> 64 word"
  cancel :: "nat option"
  baseCtx :: "nat option"
  serveWg :: int
  doOnce :: bool
  ppool :: "nat option"
  "open" :: "64 word"
  bytesIn :: "64 word"
  bytesOut :: "64 word"
  statsTimer :: "nat option"

section \<open>PROXY-v1 header\<close>

text \<open>
  The header as \<open>serve\<close> builds it in \<open>hdr\<close>, append by append. \<open>sTCPAddr\<close> is the remote
  address of the accepted connection, \<open>dTCPAddr\<close> the remote address of the dialed one.
\<close>

definition proxyHeader :: "(8 word list \<Rightarrow> string) \<Rightarrow> TCPAddr \<Rightarrow> TCPAddr \<Rightarrow> string" where
  "proxyHeader ip6 sTCPAddr dTCPAddr =
     (let srcIP = IP_String ip6 (IP sTCPAddr);
          dstIP = IP_String ip6 (IP dTCPAddr);
          dstPort = Itoa (Port dTCPAddr);
          hdr = ''PROXY '';
          hdr = hdr @ (if isIPv4 (IP sTCPAddr) then ''TCP4 '' else ''TCP6 '');
          hdr = hdr @ srcIP;
          hdr = hdr @ '' '';
          hdr = hdr @ dstIP;
          hdr = hdr @ '' '';
          hdr = hdr @ Itoa (Port sTCPAddr);
          hdr = hdr @ '' '';
          hdr = hdr @ dstPort;
          hdr = hdr @ [CHR 0x0D, CHR 0x0A]
      in hdr)"

section \<open>Session driver\<close>

text \<open>
  What the session driver meets: the result of the dial, the result of the header write,
  the case its \<open>select\<close> takes, and the scripts of its two pumps.
\<close>

datatype select_case = RecvErrIn | RecvErrOut | CtxDone | NoneReady

record serve_env =
  dial_result :: "go_error + conn"
  write_result :: "go_error option"
  select_taken :: select_case
  in_script :: "(int \<times> 64 word \<times> go_error option) list"
  out_script :: "(int \<times> 64 word \<times> go_error option) list"

datatype status = Returned | Panicked | Blocked

text \<open>
  The run of a driver: its own events in program order, the events of the two pumps it
  started (front to back, back to front) when it got that far, and how it ended.
\<close>

record session =
  events :: "event list"
  pumps :: "(event list \<times> event list) option"
  status :: status

text \<open>A receive from a completion channel: the error sent, or nil from the closed channel.\<close>

fun recv :: "chan \<Rightarrow> event list \<Rightarrow> go_error option" where
  "recv ch [] = None"
| "recv ch (Send c e # evs) = (if c = ch then Some e else recv ch evs)"
| "recv ch (ev # evs) = recv ch evs"

text \<open>
  \<open>serve\<close>. The deferred functions run on every way out, last registered first: the
  return of the header buffer to the pool (registered only under \<open>ProxyProto\<close>), then the
  decrement of \<open>open\<close> and \<open>serveWg.Done()\<close>. A failed type assertion panics, and the
  deferred functions run then too. A \<open>select\<close> case can be taken when its channel holds a
  value or is closed, which the pump does on leaving; with no case ready the driver stays
  in the \<open>select\<close>.
\<close>

definition serve ::
  "'a TCPProxy_scheme \<Rightarrow> (8 word list \<Rightarrow> string) \<Rightarrow> conn \<Rightarrow> string \<Rightarrow> serve_env \<Rightarrow> session" where
  "serve proxy ip6 sConn dst env =
     (let untrack = [AddOpen (- 1), WgDone] in
      case dial_result env of
        Inl err \<Rightarrow>
          \<lparr>events = [Dial dst, LogError ''dial error'' err] @ untrack,
           pumps = None, status = Returned\<rparr>
      | Inr dConn \<Rightarrow>
          (case dConn of
             OtherConn \<Rightarrow> \<lparr>events = [Dial dst] @ untrack, pumps = None, status = Panicked\<rparr>
           | TCPConn dLocal dTCPAddr \<Rightarrow>
          (case sConn of
             OtherConn \<Rightarrow> \<lparr>events = [Dial dst] @ untrack, pumps = None, status = Panicked\<rparr>
           | TCPConn sLocal sTCPAddr \<Rightarrow>
          (let srcIP = IP_String ip6 (IP sTCPAddr);
               dstIP = IP_String ip6 (IP dTCPAddr);
               dstPort = Itoa (Port dTCPAddr);
               start = [Dial dst, LogInfo srcIP (dstIP @ '':'' @ dstPort)];
               header = (if ProxyProto proxy
                         then [PoolGet, Write Back (proxyHeader ip6 sTCPAddr dTCPAddr)] else []);
               deferred = (if ProxyProto proxy then [PoolPut] else []) @ untrack
           in if ProxyProto proxy \<and> write_result env \<noteq> None
              then \<lparr>events = start @ header @
                              [LogError ''output error'' (the (write_result env))] @ deferred,
                    pumps = None, status = Returned\<rparr>
              else
               (let clientTimeout = timeoutFunc (ClientTimeout proxy) (SetReadDeadline Front);
                    serverTimeout = timeoutFunc (ServerTimeout proxy) (SetWriteDeadline Front);
                    (pumpIn, leftIn) = copyConn Back Front ErrIn clientTimeout True (in_script env);
                    (pumpOut, leftOut) =
                       copyConn Front Back ErrOut serverTimeout False (out_script env);
                    launch = start @ header @ [Go (CopyConn True), Go (CopyConn False)];
                    selected =
                      (case select_taken env of
                         RecvErrIn \<Rightarrow>
                           (if leftIn
                            then Some (case recv ErrIn pumpIn of
                                         Some err \<Rightarrow> [LogError ''input error'' err] | None \<Rightarrow> [])
                            else None)
                       | RecvErrOut \<Rightarrow>
                           (if leftOut
                            then Some (case recv ErrOut pumpOut of
                                         Some err \<Rightarrow> [LogError ''output error'' err] | None \<Rightarrow> [])
                            else None)
                       | CtxDone \<Rightarrow> Some [ConnClose Back, ConnClose Front]
                       | NoneReady \<Rightarrow> None)
                in case selected of
                     None \<Rightarrow> \<lparr>events = launch, pumps = Some (pumpIn, pumpOut), status = Blocked\<rparr>
                   | Some evs \<Rightarrow>
                       \<lparr>events = launch @ evs @ deferred, pumps = Some (pumpIn, pumpOut),
                        status = Returned\<rparr>)))))"

text \<open>
  The runs of a goroutine together with the goroutines it starts: the events of a child
  come after the \<open>go\<close> statement that starts it, in any interleaving with what the parent
  and its later children do.
\<close>

fun weave :: "event list \<Rightarrow> (goroutine \<Rightarrow> event list) \<Rightarrow> event list set" where
  "weave [] child = {[]}"
| "weave (Go g # evs) child = (#) (Go g) ` (\<Union>u \<in> weave evs child. shuffles (child g) u)"
| "weave (ev # evs) child = (#) ev ` weave evs child"

text \<open>The runs of a session: the driver and its two pumps.\<close>

definition session_traces :: "session \<Rightarrow> event list set" where
  "session_traces s =
     weave (events s)
       (\<lambda>g. case pumps s of
               None \<Rightarrow> []
             | Some (pumpIn, pumpOut) \<Rightarrow>
                 (if g = CopyConn True then pumpIn else if g = CopyConn False then pumpOut else []))"

text \<open>The goroutines a run starts, in order.\<close>

fun started :: "event list \<Rightarrow> goroutine list" where
  "started [] = []"
| "started (Go g # evs) = g # started evs"
| "started (ev # evs) = started evs"

section \<open>Shared state\<close>

text \<open>
  The struct together with what the runtime holds for it: how many contexts
  \<open>context.WithCancel\<close> has made and which of them are cancelled, how many timers
  \<open>time.NewTimer\<close> has made, the calls made so far, and the session drivers started
  for the instance: of each driver the events it has performed and the events it has
  still to perform.
\<close>

record world = TCPProxy +
  contexts :: nat
  cancelled :: "nat set"
  timers :: nat
  trace :: "event list"
  drivers :: "(event list \<times> event list) list"

text \<open>The zero-valued struct with its exported fields set, as \<open>main\<close> builds it.\<close>

definition new_proxy :: "string \<Rightarrow> bool \<Rightarrow> 64 word \<Rightarrow> 64 word \<Rightarrow> 64 word \<Rightarrow> 64 word \<Rightarrow> world" where
  "new_proxy name proxyProto cKeepAlive sKeepAlive cTimeout sTimeout =
     \<lparr>Name = name, ProxyProto = proxyProto, DialTimeout = 0,
      ClientTimeout = cTimeout, ServerTimeout = sTimeout,
      ClientKeepAlive = cKeepAlive, ServerKeepAlive = sKeepAlive,
      lnCfg = 0, dialer = (0, 0), cancel = None, baseCtx = None, serveWg = 0,
      doOnce = False, ppool = None, open = 0, bytesIn = 0, bytesOut = 0, statsTimer = None,
      contexts = 0, cancelled = {}, timers = 0, trace = [], drivers = []\<rparr>"

text \<open>\<open>init\<close>: the body runs under \<open>doOnce.Do\<close>, so only the first time.\<close>

definition init :: "'a world_scheme \<Rightarrow> 'a world_scheme" where
  "init proxy =
     (if doOnce proxy then proxy
      else proxy
        \<lparr>doOnce := True,
         Name := (if length (Name proxy) < 1 then ''proxy'' else Name proxy),
         lnCfg := ClientKeepAlive proxy,
         dialer := (ServerKeepAlive proxy, DialTimeout proxy),
         ppool := Some 107,
         baseCtx := Some (contexts proxy),
         cancel := Some (contexts proxy),
         contexts := contexts proxy + 1\<rparr>)"

text \<open>\<open>addBytesIn\<close>, \<open>addBytesOut\<close>: \<open>uint64(n)\<close> keeps the bits of \<open>n\<close>, and the sum wraps.\<close>

definition addBytesIn :: "64 word \<Rightarrow> 'a world_scheme \<Rightarrow> 'a world_scheme" where
  "addBytesIn n proxy = proxy\<lparr>bytesIn := bytesIn proxy + n\<rparr>"

definition addBytesOut :: "64 word \<Rightarrow> 'a world_scheme \<Rightarrow> 'a world_scheme" where
  "addBytesOut n proxy = proxy\<lparr>bytesOut := bytesOut proxy + n\<rparr>"

text \<open>
  What a call does to the shared state. Calls on sockets, channels and the logger leave
  it as it is. In Go a wait group whose counter goes below zero panics; in a run of the
  proxy every \<open>Done\<close> follows its \<open>Add\<close>, so the counter stays at or above zero.
\<close>

definition perform :: "event \<Rightarrow> 'a world_scheme \<Rightarrow> 'a world_scheme" where
  "perform ev proxy =
     (case ev of
        AddOpen d \<Rightarrow> proxy\<lparr>open := open proxy + d\<rparr>
      | WgAdd n \<Rightarrow> proxy\<lparr>serveWg := serveWg proxy + n\<rparr>
      | WgDone \<Rightarrow> proxy\<lparr>serveWg := serveWg proxy - 1\<rparr>
      | AddBytesIn n \<Rightarrow> addBytesIn n proxy
      | AddBytesOut n \<Rightarrow> addBytesOut n proxy
      | _ \<Rightarrow> proxy)
     \<lparr>trace := trace proxy @ [ev]\<rparr>"

definition performs :: "event list \<Rightarrow> 'a world_scheme \<Rightarrow> 'a world_scheme" where
  "performs evs proxy = fold perform evs proxy"

text \<open>
  \<open>startStatsTimer\<close>: a new timer is stored in the field and a statistics goroutine is
  started, at every call.
\<close>

definition startStatsTimer :: "'a world_scheme \<Rightarrow> 'a world_scheme" where
  "startStatsTimer proxy =
     perform (Go StatsLoop) (proxy\<lparr>statsTimer := Some (timers proxy), timers := timers proxy + 1\<rparr>)"

text \<open>
  \<open>Close\<close>: the call of a nil \<open>cancel\<close> panics. Otherwise the context is cancelled and
  \<open>serveWg.Wait()\<close> returns once the counter is zero; \<open>Waits\<close> is the call still blocked
  in it.
\<close>

datatype 'a call = Returns 'a | Waits 'a | Panics

definition Wait :: "'a world_scheme \<Rightarrow> 'a world_scheme call" where
  "Wait proxy = (if serveWg proxy = 0 then Returns proxy else Waits proxy)"

definition Close :: "'a world_scheme \<Rightarrow> 'a world_scheme call" where
  "Close proxy =
     (case cancel proxy of
        None \<Rightarrow> Panics
      | Some ctx \<Rightarrow> Wait (proxy\<lparr>cancelled := insert ctx (cancelled proxy)\<rparr>))"

section \<open>Accept loop\<close>

text \<open>
  The inner loop takes the results of \<open>ln.Accept()\<close> in turn. It ends with the accepted
  connection (\<open>Inr\<close>), with the error that \<open>Proxy\<close> returns (\<open>Inl\<close>, where \<open>None\<close> is nil),
  or, with the results used up, still in \<open>Accept\<close> (\<open>None\<close>).
\<close>

fun acceptInner ::
  "(go_error + conn) list \<Rightarrow> 'a world_scheme \<Rightarrow>
   (go_error option + conn) option \<times> (go_error + conn) list \<times> 'a world_scheme" where
  "acceptInner [] proxy = (None, [], proxy)"
| "acceptInner (Inr conn # accepts) proxy = (Some (Inr conn), accepts, proxy)"
| "acceptInner (Inl err # accepts) proxy =
     (if is_net_temporary err
        then acceptInner accepts
               (perform (Sleep 1000000000) (perform (LogError ''temp. accept error'' err) proxy))
      else if errors_Is err EOF
        then (Some (Inl None), accepts, proxy)
      else (Some (Inl (Some err)), accepts, perform (LogError ''accept error'' err) proxy))"

text \<open>
  The outer loop. Each entry of \<open>dones\<close> is what the \<open>select\<close> at the top of an iteration
  sees: whether \<open>baseCtx.Done()\<close> is closed by then. The result is the error \<open>Proxy\<close>
  returns, or \<open>None\<close> while the loop runs.
\<close>

fun acceptLoop ::
  "string \<Rightarrow> bool list \<Rightarrow> (go_error + conn) list \<Rightarrow> 'a world_scheme \<Rightarrow>
   go_error option option \<times> 'a world_scheme" where
  "acceptLoop dst [] accepts proxy = (None, proxy)"
| "acceptLoop dst (done # dones) accepts proxy =
     (if done then (Some (Some ErrProxyClosed), proxy)
      else case acceptInner accepts proxy of
             (None, rest, proxy') \<Rightarrow> (None, proxy')
           | (Some (Inl err), rest, proxy') \<Rightarrow> (Some err, proxy')
           | (Some (Inr conn), rest, proxy') \<Rightarrow>
               acceptLoop dst dones rest
                 (perform (Go (Serve conn dst)) (perform (AddOpen 1) (perform (WgAdd 1) proxy'))))"

text \<open>What \<open>Proxy\<close> meets besides the accepts: the results of its dial, of closing the
  probe and of the listen.\<close>

record proxy_env =
  probe_dial :: "go_error option"
  probe_close :: "go_error option"
  listen_result :: "go_error option"
  dones :: "bool list"
  accepts :: "(go_error + conn) list"

definition Proxy ::
  "string \<Rightarrow> string \<Rightarrow> proxy_env \<Rightarrow> 'a world_scheme \<Rightarrow> go_error option option \<times> 'a world_scheme" where
  "Proxy src dst env proxy =
     (let proxy = init proxy;
          proxy = startStatsTimer proxy;
          proxy = perform (Dial dst) proxy
      in case probe_dial env of
           Some err \<Rightarrow> (Some (Some err), proxy)
         | None \<Rightarrow>
        (let proxy = perform (ConnClose Probe) proxy
         in case probe_close env of
              Some err \<Rightarrow> (Some (Some err), proxy)
            | None \<Rightarrow>
           (let proxy = perform (Listen src) proxy
            in case listen_result env of
                 Some err \<Rightarrow> (Some (Some err), proxy)
               | None \<Rightarrow>
                 (case acceptLoop dst (dones env) (accepts env) proxy of
                    (None, proxy') \<Rightarrow> (None, proxy')
                  | (Some err, proxy') \<Rightarrow> (Some err, perform CloseListener proxy')))))"

section \<open>An instance with its session drivers\<close>

text \<open>
  \<open>accepted\<close> is the accept loop taking a connection: it adds to the wait group and to
  \<open>open\<close>, then starts the driver with \<open>go\<close>. \<open>driver_step i\<close> lets driver \<open>i\<close> perform its
  next event.
\<close>

definition accepted ::
  "(8 word list \<Rightarrow> string) \<Rightarrow> conn \<Rightarrow> string \<Rightarrow> serve_env \<Rightarrow> world \<Rightarrow> world" where
  "accepted ip6 sConn dst env s =
     (perform (Go (Serve sConn dst)) (perform (AddOpen 1) (perform (WgAdd 1) s)))
       \<lparr>drivers := drivers s @ [([], events (serve s ip6 sConn dst env))]\<rparr>"

definition driver_step :: "nat \<Rightarrow> world \<Rightarrow> world" where
  "driver_step i s =
     (if i < length (drivers s) then
        (case drivers s ! i of
           (performed, []) \<Rightarrow> s
         | (performed, ev # rest) \<Rightarrow>
             (perform ev s)\<lparr>drivers := (drivers s)[i := (performed @ [ev], rest)]\<rparr>)
      else s)"

datatype action =
    CallProxy string string
  | Accepted conn string serve_env
  | DriverStep nat
  | CallCancel

text \<open>
  The steps of an instance: a call of \<open>Proxy\<close> up to its listen, an accept inside a call
  of \<open>Proxy\<close> (so after \<open>init\<close>), a step of a driver, and the cancelling half of \<open>Close\<close>.
\<close>

fun step :: "(8 word list \<Rightarrow> string) \<Rightarrow> action \<Rightarrow> world \<Rightarrow> world" where
  "step ip6 (CallProxy src dst) s = startStatsTimer (init s)"
| "step ip6 (Accepted sConn dst env) s = (if doOnce s then accepted ip6 sConn dst env s else s)"
| "step ip6 (DriverStep i) s = driver_step i s"
| "step ip6 CallCancel s =
     (case cancel s of None \<Rightarrow> s | Some ctx \<Rightarrow> s\<lparr>cancelled := insert ctx (cancelled s)\<rparr>)"

definition run :: "(8 word list \<Rightarrow> string) \<Rightarrow> action list \<Rightarrow> world \<Rightarrow> world" where
  "run ip6 acts s = fold (step ip6) acts s"

text \<open>The drivers that have not yet performed their decrement of \<open>open\<close>.\<close>

definition undecremented :: "world \<Rightarrow> nat" where
  "undecremented s = length (filter (\<lambda>(performed, rest). AddOpen (- 1) \<notin> set performed) (drivers s))"

text \<open>The drivers that have not yet performed \<open>serveWg.Done()\<close>.\<close>

definition unfinished :: "world \<Rightarrow> nat" where
  "unfinished s = length (filter (\<lambda>(performed, rest). WgDone \<notin> set performed) (drivers s))"

text \<open>The calls that put bytes on the back-end socket.\<close>

fun back_output :: "event \<Rightarrow> bool" where
  "back_output (Write Back data) = True"
| "back_output (ReadFrom Back src n err) = True"
| "back_output ev = False"

text \<open>An event that touches the counter of open connections or the wait group.\<close>

fun counting :: "event \<Rightarrow> bool" where
  "counting (AddOpen d) = True"
| "counting (WgAdd n) = True"
| "counting WgDone = True"
| "counting ev = False"

text \<open>
  What holds of an instance between any two steps: \<open>open\<close> is the number of drivers that
  have not yet decremented it (as a 64-bit value), the wait group counts the drivers that
  have not yet called \<open>Done\<close>, \<open>cancel\<close> cancels \<open>baseCtx\<close>, and the events of each driver
  are events that touch neither counter, followed by nothing or by the decrement and
  \<open>Done\<close> of the deferred function.
\<close>

definition consistent :: "world \<Rightarrow> bool" where
  "consistent s \<longleftrightarrow>
     open s = of_nat (undecremented s) \<and>
     serveWg s = int (unfinished s) \<and>
     cancel s = baseCtx s \<and>
     (\<forall>(performed, rest) \<in> set (drivers s).
        \<exists>body tail. performed @ rest = body @ tail \<and> (\<forall>e \<in> set body. \<not> counting e) \<and>
          (tail = [] \<or> tail = [AddOpen (- 1), WgDone]))"

section \<open>Interleavings\<close>



lemma set_weave:
  "t \<in> weave evs child \<Longrightarrow> set t = set evs \<union> (\<Union>g \<in> set (started evs). set (child g))"
proof (induction evs child arbitrary: t rule: weave.induct)
  case (2 g evs child)
  then obtain u v where t: "t = Go g # v" and v: "v \<in> shuffles (child g) u" and u: "u \<in> weave evs child"
    by auto
  from v have "set v = set (child g) \<union> set u" by (rule set_shuffles)
  with "2.IH" [OF u] t show ?case by auto
qed auto

lemma weave_prefix:
  "started xs = [] \<Longrightarrow> weave (xs @ ys) child = (@) xs ` weave ys child"
proof (induction xs)
  case Nil
  then show ?case by (simp add: image_def)
next
  case (Cons x xs)
  then show ?case by (cases x) (auto simp: image_image)
qed

lemma started_append: "started (xs @ ys) = started xs @ started ys"
  by (induction xs rule: started.induct) auto

section \<open>Events of a pump\<close>

lemma copyLoop_all:
  assumes "\<And>now e. e \<in> set (st now) \<Longrightarrow> P e"
    and "\<And>n err. P (ReadFrom dst src n err)"
    and "\<And>n. P (addBytes c2s n)"
    and "\<And>x. P (Send ch x)"
  shows "\<forall>e \<in> set (fst (copyLoop dst src ch st c2s script)). P e"
proof (induction script)
  case Nil
  show ?case by simp
next
  case (Cons it script)
  obtain now n err where it: "it = (now, n, err)" by (cases it) auto
  from Cons assms show ?case
    unfolding it
    by (auto simp del: addBytes.simps simp: Let_def split: prod.splits if_splits)
qed

lemma copyConn_all:
  assumes "\<And>now e. e \<in> set (st now) \<Longrightarrow> P e"
    and "\<And>n err. P (ReadFrom dst src n err)"
    and "\<And>n. P (addBytes c2s n)"
    and "\<And>x. P (Send ch x)"
    and "P (CloseChan ch)" and "P (ConnClose dst)"
  shows "\<forall>e \<in> set (fst (copyConn dst src ch st c2s script)). P e"
  using copyLoop_all [of st P dst src c2s ch script, OF assms(1-4)] assms(5,6)
  by (auto simp: copyConn_def split: prod.splits)


lemma timeoutFunc_events:
  "e \<in> set (timeoutFunc d fn now) \<Longrightarrow> 0 < sint d \<and> e = fn (now + sint d)"
  by (auto simp: timeoutFunc_def split: if_splits)

section \<open>Shape of a driver's run\<close>

lemma serve_pumps:
  "pumps (serve proxy ip6 sConn dst env) =
     (case (dial_result env, sConn) of
        (Inr (TCPConn dl da), TCPConn sl sa) \<Rightarrow>
          (if ProxyProto proxy \<and> write_result env \<noteq> None then None
           else Some (fst (copyConn Back Front ErrIn
                             (timeoutFunc (ClientTimeout proxy) (SetReadDeadline Front)) True
                             (in_script env)),
                      fst (copyConn Front Back ErrOut
                             (timeoutFunc (ServerTimeout proxy) (SetWriteDeadline Front)) False
                             (out_script env))))
      | _ \<Rightarrow> None)"
  by (auto simp: serve_def Let_def split: sum.splits conn.splits prod.splits option.splits select_case.splits)

lemma serve_events:
  assumes "e \<in> set (events (serve proxy ip6 sConn dst env))"
  shows "e = Dial dst \<or> (\<exists>m err. e = LogError m err) \<or> (\<exists>a b. e = LogInfo a b)
       \<or> e = PoolGet \<or> e = PoolPut \<or> (\<exists>h. e = Write Back h)
       \<or> e = Go (CopyConn True) \<or> e = Go (CopyConn False)
       \<or> e = ConnClose Back \<or> e = ConnClose Front
       \<or> e = AddOpen (- 1) \<or> e = WgDone"
  using assms
  by (auto simp: serve_def Let_def split: sum.splits conn.splits prod.splits option.splits select_case.splits if_splits)

lemma copyConn_left_suffix:
  "snd (copyConn dst src ch st c2s script) \<Longrightarrow>
   \<exists>evs. fst (copyConn dst src ch st c2s script) = evs @ [CloseChan ch, ConnClose dst]"
  by (auto simp: copyConn_def split: prod.splits if_splits)

section \<open>The copy pump, iteration by iteration\<close>

text \<open>
  An iteration of the copy pump with byte count \<open>n\<close> and error \<open>err\<close>, branch by branch
  as \<open>copyConn\<close> tests it: nil and the values \<open>io.EOF\<close> and \<open>net.ErrClosed\<close> themselves
  (compared with \<open>==\<close>), then a network timeout, then everything else.
\<close>

lemma copyConn_iteration:
  "(err = None \<or> err = Some EOF \<or> err = Some ErrClosed \<longrightarrow>
      copyConn dst src ch st c2s ((now, n, err) # rest) =
        (st now @ [ReadFrom dst src n err, addBytes c2s n, CloseChan ch, ConnClose dst], True))
   \<and> (err = Some e \<and> is_net_timeout e \<and> n = 0 \<longrightarrow>
      copyConn dst src ch st c2s ((now, n, err) # rest) =
        (st now @ [ReadFrom dst src n err, CloseChan ch, ConnClose dst], True))
   \<and> (err = Some e \<and> is_net_timeout e \<and> 0 < sint n \<longrightarrow>
      fst (copyConn dst src ch st c2s ((now, n, err) # rest)) =
        st now @ [ReadFrom dst src n err, addBytes c2s n] @ fst (copyConn dst src ch st c2s rest)
      \<and> snd (copyConn dst src ch st c2s ((now, n, err) # rest)) =
        snd (copyConn dst src ch st c2s rest))
   \<and> (err = Some e \<and> e \<noteq> EOF \<and> e \<noteq> ErrClosed \<and> \<not> is_net_timeout e \<longrightarrow>
      copyConn dst src ch st c2s ((now, n, err) # rest) =
        (st now @ [ReadFrom dst src n err, Send ch e, CloseChan ch, ConnClose dst], True))
   \<and> (snd (copyConn dst src ch st c2s script) \<longrightarrow>
        (\<exists>evs. fst (copyConn dst src ch st c2s script) = evs @ [CloseChan ch, ConnClose dst]))"
proof (intro conjI impI)
  assume "err = None \<or> err = Some EOF \<or> err = Some ErrClosed"
  then show "copyConn dst src ch st c2s ((now, n, err) # rest) =
        (st now @ [ReadFrom dst src n err, addBytes c2s n, CloseChan ch, ConnClose dst], True)"
    by (auto simp: copyConn_def)
next
  assume "err = Some e \<and> is_net_timeout e \<and> n = 0"
  then show "copyConn dst src ch st c2s ((now, n, err) # rest) =
        (st now @ [ReadFrom dst src n err, CloseChan ch, ConnClose dst], True)"
    by (cases e) (auto simp: copyConn_def)
next
  assume a: "err = Some e \<and> is_net_timeout e \<and> 0 < sint n"
  then show "fst (copyConn dst src ch st c2s ((now, n, err) # rest)) =
        st now @ [ReadFrom dst src n err, addBytes c2s n] @ fst (copyConn dst src ch st c2s rest)"
    by (cases e) (auto simp: copyConn_def split: prod.splits)
  from a show "snd (copyConn dst src ch st c2s ((now, n, err) # rest)) =
        snd (copyConn dst src ch st c2s rest)"
    by (cases e) (auto simp: copyConn_def split: prod.splits)
next
  assume "err = Some e \<and> e \<noteq> EOF \<and> e \<noteq> ErrClosed \<and> \<not> is_net_timeout e"
  then show "copyConn dst src ch st c2s ((now, n, err) # rest) =
        (st now @ [ReadFrom dst src n err, Send ch e, CloseChan ch, ConnClose dst], True)"
    by (auto simp: copyConn_def)
next
  assume "snd (copyConn dst src ch st c2s script)"
  then show "\<exists>evs. fst (copyConn dst src ch st c2s script) = evs @ [CloseChan ch, ConnClose dst]"
    by (rule copyConn_left_suffix)
qed

text \<open>
  Claim C2, on the code. A \<open>ReadFrom\<close> on a connection that is already closed returns
  \<open>net.ErrClosed\<close> wrapped in a \<open>*net.OpError\<close> (\<open>errors.Is\<close> finds it). Such an error is
  not equal to \<open>net.ErrClosed\<close>, so the pump, in either direction, sends it on its
  completion channel and adds nothing to \<open>bytesIn\<close> or \<open>bytesOut\<close>. Only the bare value
  \<open>net.ErrClosed\<close> makes the pump add the bytes to the counter of its direction and
  leave without sending.
\<close>

theorem closed_connection_counted_as_error:
  "errors_Is (NetError False False ErrClosed) ErrClosed
   \<and> copyConn Back Front ErrIn (timeoutFunc 0 (SetReadDeadline Front)) True
       [(0, 100, Some (NetError False False ErrClosed))] =
     ([ReadFrom Back Front 100 (Some (NetError False False ErrClosed)),
       Send ErrIn (NetError False False ErrClosed), CloseChan ErrIn, ConnClose Back], True)
   \<and> bytesIn (performs
        [ReadFrom Back Front 100 (Some (NetError False False ErrClosed)),
         Send ErrIn (NetError False False ErrClosed), CloseChan ErrIn, ConnClose Back]
        (new_proxy ''p'' False 0 0 0 0)) = 0
   \<and> copyConn Front Back ErrOut (timeoutFunc 0 (SetWriteDeadline Front)) False
       [(0, 100, Some (NetError False False ErrClosed))] =
     ([ReadFrom Front Back 100 (Some (NetError False False ErrClosed)),
       Send ErrOut (NetError False False ErrClosed), CloseChan ErrOut, ConnClose Front], True)
   \<and> bytesOut (performs
        [ReadFrom Front Back 100 (Some (NetError False False ErrClosed)),
         Send ErrOut (NetError False False ErrClosed), CloseChan ErrOut, ConnClose Front]
        (new_proxy ''p'' False 0 0 0 0)) = 0
   \<and> copyConn Back Front ErrIn (timeoutFunc 0 (SetReadDeadline Front)) True
       [(0, 100, Some ErrClosed)] =
     ([ReadFrom Back Front 100 (Some ErrClosed), AddBytesIn 100, CloseChan ErrIn, ConnClose Back], True)
   \<and> bytesIn (performs
        [ReadFrom Back Front 100 (Some ErrClosed), AddBytesIn 100, CloseChan ErrIn, ConnClose Back]
        (new_proxy ''p'' False 0 0 0 0)) = 100
   \<and> copyConn Front Back ErrOut (timeoutFunc 0 (SetWriteDeadline Front)) False
       [(0, 100, Some ErrClosed)] =
     ([ReadFrom Front Back 100 (Some ErrClosed), AddBytesOut 100, CloseChan ErrOut, ConnClose Front], True)
   \<and> bytesOut (performs
        [ReadFrom Front Back 100 (Some ErrClosed), AddBytesOut 100, CloseChan ErrOut, ConnClose Front]
        (new_proxy ''p'' False 0 0 0 0)) = 100"
  by (simp add: copyConn_def timeoutFunc_def performs_def perform_def addBytesIn_def
        addBytesOut_def new_proxy_def)

lemma append_in_shuffles: "ys @ xs \<in> shuffles xs ys"
proof (induction ys)
  case Nil
  show ?case by simp
next
  case (Cons y ys)
  then show ?case by (simp add: Cons_in_shuffles_rightI)
qed

lemma weave_sequential:
  "evs @ concat (map child (rev (started evs))) \<in> weave evs child"
proof (induction evs child rule: weave.induct)
  case (2 g evs child)
  have "(evs @ concat (map child (rev (started evs)))) @ child g
          \<in> shuffles (child g) (evs @ concat (map child (rev (started evs))))"
    by (rule append_in_shuffles)
  with 2 show ?case by auto
qed auto

lemma session_traces_set:
  assumes "t \<in> session_traces s" and "e \<in> set t"
  shows "e \<in> set (events s) \<or> (\<exists>pi po. pumps s = Some (pi, po) \<and> (e \<in> set pi \<or> e \<in> set po))"
proof (cases "pumps s")
  case None
  with assms show ?thesis
    by (auto simp: session_traces_def dest!: set_weave)
next
  case (Some p)
  obtain pi po where p: "p = (pi, po)" by (cases p) auto
  from assms Some p show ?thesis
    by (auto simp: session_traces_def dest!: set_weave split: if_splits)
qed

lemma session_traces_deadlines:
  assumes t: "t \<in> session_traces (serve proxy ip6 sConn dst env)"
  shows "(SetReadDeadline s x \<in> set t \<longrightarrow> s = Front \<and> 0 < sint (ClientTimeout proxy)) \<and>
         (SetWriteDeadline s x \<in> set t \<longrightarrow> s = Front \<and> 0 < sint (ServerTimeout proxy))"
proof -
  let ?P = "\<lambda>e. (e = SetReadDeadline s x \<longrightarrow> s = Front \<and> 0 < sint (ClientTimeout proxy)) \<and>
                 (e = SetWriteDeadline s x \<longrightarrow> s = Front \<and> 0 < sint (ServerTimeout proxy))"
  let ?pin = "fst (copyConn Back Front ErrIn
                (timeoutFunc (ClientTimeout proxy) (SetReadDeadline Front)) True (in_script env))"
  let ?pout = "fst (copyConn Front Back ErrOut
                (timeoutFunc (ServerTimeout proxy) (SetWriteDeadline Front)) False (out_script env))"
  have own: "\<forall>e \<in> set (events (serve proxy ip6 sConn dst env)). ?P e"
    using serve_events [of _ proxy ip6 sConn dst env] by fastforce
  have pin: "\<forall>e \<in> set ?pin. ?P e"
    by (rule copyConn_all) (auto dest: timeoutFunc_events)
  have pout: "\<forall>e \<in> set ?pout. ?P e"
    by (rule copyConn_all) (auto dest: timeoutFunc_events)
  have "?P e" if "e \<in> set t" for e
  proof -
    note \<open>e \<in> set t\<close>
    with session_traces_set [OF t]
    consider "e \<in> set (events (serve proxy ip6 sConn dst env))"
      | pi po where "pumps (serve proxy ip6 sConn dst env) = Some (pi, po)" "e \<in> set pi \<or> e \<in> set po"
      by blast
    then show ?thesis
    proof cases
      case 1
      with own show ?thesis by blast
    next
      case 2
      from 2(1) have "pi = ?pin" "po = ?pout"
        by (auto simp: serve_pumps split: sum.splits conn.splits if_splits)
      with 2(2) pin pout show ?thesis by blast
    qed
  qed
  then show ?thesis by blast
qed

section \<open>Idle deadlines\<close>

text \<open>
  Claim C9. The setter built from a duration \<open>d\<close> and a deadline function \<open>fn\<close> makes no
  call at all when \<open>d \<le> 0\<close>, and otherwise each invocation makes the one call
  \<open>fn (now + d)\<close>. A driver that reaches its pumps builds two setters: the pump from
  front to back gets the one that sets the read deadline of the front-end socket from
  \<open>ClientTimeout\<close>, the pump from back to front the one that sets the write deadline of
  the front-end socket from \<open>ServerTimeout\<close>. In every run of a session, every deadline
  that is set is set on the front-end socket: a read deadline only with a positive
  \<open>ClientTimeout\<close>, a write deadline only with a positive \<open>ServerTimeout\<close>.
\<close>

theorem idle_deadline_setters:
  "(sint d \<le> 0 \<longrightarrow> (\<forall>now. timeoutFunc d fn now = []))
   \<and> (0 < sint d \<longrightarrow> (\<forall>now. timeoutFunc d fn now = [fn (now + sint d)]))
   \<and> (dial_result env = Inr (TCPConn dl da) \<and> \<not> (ProxyProto proxy \<and> write_result env \<noteq> None) \<longrightarrow>
        pumps (serve proxy ip6 (TCPConn sl sa) dst env) =
          Some (fst (copyConn Back Front ErrIn
                       (timeoutFunc (ClientTimeout proxy) (SetReadDeadline Front)) True
                       (in_script env)),
                fst (copyConn Front Back ErrOut
                       (timeoutFunc (ServerTimeout proxy) (SetWriteDeadline Front)) False
                       (out_script env))))
   \<and> (\<forall>t \<in> session_traces (serve proxy ip6 sConn dst env). \<forall>s x.
        (SetReadDeadline s x \<in> set t \<longrightarrow> s = Front \<and> 0 < sint (ClientTimeout proxy)) \<and>
        (SetWriteDeadline s x \<in> set t \<longrightarrow> s = Front \<and> 0 < sint (ServerTimeout proxy)))"
proof -
  have a: "sint d \<le> 0 \<longrightarrow> (\<forall>now. timeoutFunc d fn now = [])"
    by (simp add: timeoutFunc_def)
  have b: "0 < sint d \<longrightarrow> (\<forall>now. timeoutFunc d fn now = [fn (now + sint d)])"
    by (simp add: timeoutFunc_def)
  have c: "dial_result env = Inr (TCPConn dl da) \<and> \<not> (ProxyProto proxy \<and> write_result env \<noteq> None) \<longrightarrow>
        pumps (serve proxy ip6 (TCPConn sl sa) dst env) =
          Some (fst (copyConn Back Front ErrIn
                       (timeoutFunc (ClientTimeout proxy) (SetReadDeadline Front)) True
                       (in_script env)),
                fst (copyConn Front Back ErrOut
                       (timeoutFunc (ServerTimeout proxy) (SetWriteDeadline Front)) False
                       (out_script env)))"
    by (auto simp: serve_pumps)
  have d: "\<forall>t \<in> session_traces (serve proxy ip6 sConn dst env). \<forall>s x.
        (SetReadDeadline s x \<in> set t \<longrightarrow> s = Front \<and> 0 < sint (ClientTimeout proxy)) \<and>
        (SetWriteDeadline s x \<in> set t \<longrightarrow> s = Front \<and> 0 < sint (ServerTimeout proxy))"
    using session_traces_deadlines by blast
  show ?thesis by (intro conjI a b c d)
qed


lemma digits_small: "n < 10 \<Longrightarrow> digits n = [''0123456789'' ! n]"
  by (subst digits.simps) simp

lemma digits_big:
  "\<not> n < 10 \<Longrightarrow> digits n = digits (n div 10) @ [''0123456789'' ! (n mod 10)]"
  by (subst digits.simps) simp

lemma session_sequential:
  assumes "pumps s = Some (pi, po)" and "started (events s) = [CopyConn True, CopyConn False]"
  shows "events s @ po @ pi \<in> session_traces s"
  using weave_sequential [of "events s" "\<lambda>g. case pumps s of None \<Rightarrow> []
             | Some (pumpIn, pumpOut) \<Rightarrow>
                 (if g = CopyConn True then pumpIn else if g = CopyConn False then pumpOut else [])"]
    assms
  by (simp add: session_traces_def)

theorem idle_deadline_setters_witness:
  "timeoutFunc 0 (SetReadDeadline Front) 100 = []
   \<and> timeoutFunc 30 (SetReadDeadline Front) 100 = [SetReadDeadline Front 130]
   \<and> pumps (serve (new_proxy ''p'' False 0 0 30 0) (\<lambda>ip. ''::1'')
              (TCPConn \<lparr>IP = [127, 0, 0, 1], Port = 8080\<rparr> \<lparr>IP = [127, 0, 0, 1], Port = 50000\<rparr>)
              ''127.0.0.1:9090''
              \<lparr>dial_result = Inr (TCPConn \<lparr>IP = [127, 0, 0, 1], Port = 50001\<rparr>
                                           \<lparr>IP = [127, 0, 0, 1], Port = 9090\<rparr>),
               write_result = None, select_taken = RecvErrIn,
               in_script = [(100, 3, Some EOF)], out_script = []\<rparr>) =
       Some ([SetReadDeadline Front 130, ReadFrom Back Front 3 (Some EOF), AddBytesIn 3,
              CloseChan ErrIn, ConnClose Back], [])
   \<and> [Dial ''127.0.0.1:9090'', LogInfo ''127.0.0.1'' ''127.0.0.1:9090'',
       Go (CopyConn True), Go (CopyConn False), AddOpen (- 1), WgDone,
       SetReadDeadline Front 130, ReadFrom Back Front 3 (Some EOF), AddBytesIn 3,
       CloseChan ErrIn, ConnClose Back]
      \<in> session_traces (serve (new_proxy ''p'' False 0 0 30 0) (\<lambda>ip. ''::1'')
              (TCPConn \<lparr>IP = [127, 0, 0, 1], Port = 8080\<rparr> \<lparr>IP = [127, 0, 0, 1], Port = 50000\<rparr>)
              ''127.0.0.1:9090''
              \<lparr>dial_result = Inr (TCPConn \<lparr>IP = [127, 0, 0, 1], Port = 50001\<rparr>
                                           \<lparr>IP = [127, 0, 0, 1], Port = 9090\<rparr>),
               write_result = None, select_taken = RecvErrIn,
               in_script = [(100, 3, Some EOF)], out_script = []\<rparr>)
   \<and> 0 < sint (ClientTimeout (new_proxy ''p'' False 0 0 30 0))"
proof -
  let ?cfg = "new_proxy ''p'' False 0 0 30 0"
  let ?sConn = "TCPConn \<lparr>IP = [127, 0, 0, 1], Port = 8080\<rparr> \<lparr>IP = [127, 0, 0, 1], Port = 50000\<rparr>"
  let ?env = "\<lparr>dial_result = Inr (TCPConn \<lparr>IP = [127, 0, 0, 1], Port = 50001\<rparr>
                                           \<lparr>IP = [127, 0, 0, 1], Port = 9090\<rparr>),
               write_result = None, select_taken = RecvErrIn,
               in_script = [(100, 3, Some EOF)], out_script = []\<rparr>"
  let ?s = "serve ?cfg (\<lambda>ip. ''::1'') ?sConn ''127.0.0.1:9090'' ?env"
  let ?t = "[Dial ''127.0.0.1:9090'', LogInfo ''127.0.0.1'' ''127.0.0.1:9090'',
       Go (CopyConn True), Go (CopyConn False), AddOpen (- 1), WgDone,
       SetReadDeadline Front 130, ReadFrom Back Front 3 (Some EOF), AddBytesIn 3,
       CloseChan ErrIn, ConnClose Back]"
  have s: "?s = \<lparr>events = [Dial ''127.0.0.1:9090'', LogInfo ''127.0.0.1'' ''127.0.0.1:9090'',
                   Go (CopyConn True), Go (CopyConn False), AddOpen (- 1), WgDone],
                 pumps = Some ([SetReadDeadline Front 130, ReadFrom Back Front 3 (Some EOF),
                   AddBytesIn 3, CloseChan ErrIn, ConnClose Back], []),
                 status = Returned\<rparr>"
    by (simp add: serve_def new_proxy_def copyConn_def timeoutFunc_def IP_String_def To4_def
          Itoa_def digits_small digits_big)
  have t: "?t \<in> session_traces ?s"
    using session_sequential [of ?s _ "[]"] by (simp add: s)
  have d: "dial_result ?env = Inr (TCPConn \<lparr>IP = [127, 0, 0, 1], Port = 50001\<rparr>
                                           \<lparr>IP = [127, 0, 0, 1], Port = 9090\<rparr>)
       \<and> \<not> (ProxyProto ?cfg \<and> write_result ?env \<noteq> None)"
    by (simp add: new_proxy_def)
  have r: "SetReadDeadline Front 130 \<in> set ?t" by simp
  from idle_deadline_setters [of 0 "SetReadDeadline Front" ?env _ _ ?cfg "\<lambda>ip. ''::1''" _ _ "''127.0.0.1:9090''" ?sConn]
    idle_deadline_setters [of 30 "SetReadDeadline Front" ?env _ _ ?cfg "\<lambda>ip. ''::1''" _ _ "''127.0.0.1:9090''" ?sConn]
    d t r
  show ?thesis
    by (simp add: s)
qed

lemma isZeros_iff: "isZeros bs \<longleftrightarrow> (\<forall>b \<in> set bs. b = 0)"
  by (induction bs) auto

lemma isZeros_take:
  assumes "k \<le> length bs"
  shows "isZeros (take k bs) \<longleftrightarrow> (\<forall>i<k. bs ! i = 0)"
  using assms by (simp add: isZeros_iff all_set_conv_all_nth)

lemma isIPv4_iff:
  "isIPv4 ip \<longleftrightarrow>
     length ip = 4 \<or>
     (length ip = 16 \<and> (\<forall>i<10. ip ! i = 0) \<and> ip ! 10 = 0xff \<and> ip ! 11 = 0xff)"
  using isZeros_take [of 10 ip] by (auto simp: isIPv4_def)

lemma proxyHeader_line:
  "proxyHeader ip6 sa da =
     ''PROXY '' @ (if isIPv4 (IP sa) then ''TCP4 '' else ''TCP6 '') @ IP_String ip6 (IP sa) @ '' '' @
     IP_String ip6 (IP da) @ '' '' @ Itoa (Port sa) @ '' '' @ Itoa (Port da) @ [CHR 0x0D, CHR 0x0A]"
  by (simp add: proxyHeader_def Let_def)

lemma IP_String_loopback: "IP_String ip6 [127, 0, 0, 1] = ''127.0.0.1''"
  by (simp add: IP_String_def To4_def digits_small digits_big)

lemma serve_header_first:
  assumes "ProxyProto proxy" and "dial_result env = Inr (TCPConn dl da)"
  shows "\<exists>rest. events (serve proxy ip6 (TCPConn sl sa) dst env) =
           [Dial dst, LogInfo (IP_String ip6 (IP sa)) (IP_String ip6 (IP da) @ '':'' @ Itoa (Port da)),
            PoolGet, Write Back (proxyHeader ip6 sa da)] @ rest
         \<and> (\<forall>e \<in> set rest. \<not> back_output e)"
  using assms
  by (auto simp: serve_def Let_def split: prod.splits option.splits select_case.splits)

lemma pump_back_output:
  "\<forall>e \<in> set (fst (copyConn dst Front ch (timeoutFunc d (fn Front)) c2s script)).
     back_output e \<longrightarrow> (\<exists>n err. e = ReadFrom Back Front n err)"
  if "fn = SetReadDeadline \<or> fn = SetWriteDeadline"
  using that by (intro copyConn_all) (auto dest!: timeoutFunc_events elim: back_output.elims)

lemma pump_front_output:
  "\<forall>e \<in> set (fst (copyConn Front src ch (timeoutFunc d (fn Front)) c2s script)). \<not> back_output e"
  if "fn = SetReadDeadline \<or> fn = SetWriteDeadline"
  using that by (intro copyConn_all) (auto dest!: timeoutFunc_events)

lemma session_header_first:
  assumes pp: "ProxyProto proxy" and dial: "dial_result env = Inr (TCPConn dl da)"
    and t: "t \<in> session_traces (serve proxy ip6 (TCPConn sl sa) dst env)"
  shows "\<exists>rest. filter back_output t = Write Back (proxyHeader ip6 sa da) # rest
           \<and> (\<forall>e \<in> set rest. \<exists>n err. e = ReadFrom Back Front n err)"
proof -
  let ?s = "serve proxy ip6 (TCPConn sl sa) dst env"
  let ?child = "\<lambda>g. case pumps ?s of None \<Rightarrow> []
             | Some (pumpIn, pumpOut) \<Rightarrow>
                 (if g = CopyConn True then pumpIn else if g = CopyConn False then pumpOut else [])"
  let ?pre = "[Dial dst, LogInfo (IP_String ip6 (IP sa)) (IP_String ip6 (IP da) @ '':'' @ Itoa (Port da)),
            PoolGet, Write Back (proxyHeader ip6 sa da)]"
  from serve_header_first [OF pp dial] obtain rest where
    ev: "events ?s = ?pre @ rest" and rest: "\<forall>e \<in> set rest. \<not> back_output e"
    by blast
  have "weave (?pre @ rest) ?child = (@) ?pre ` weave rest ?child"
    by (rule weave_prefix) simp
  with t ev obtain t' where t': "t = ?pre @ t'" and w: "t' \<in> weave rest ?child"
    by (auto simp: session_traces_def)
  have child: "\<forall>e \<in> set (?child g). back_output e \<longrightarrow> (\<exists>n err. e = ReadFrom Back Front n err)" for g
    using pump_back_output [of SetReadDeadline Back ErrIn "ClientTimeout proxy" True "in_script env"]
      pump_front_output [of SetWriteDeadline Back ErrOut "ServerTimeout proxy" False "out_script env"]
    by (auto simp: serve_pumps dial split: if_splits)
  have "\<forall>e \<in> set t'. back_output e \<longrightarrow> (\<exists>n err. e = ReadFrom Back Front n err)"
    using set_weave [OF w] rest child by blast
  then have "\<forall>e \<in> set (filter back_output t'). \<exists>n err. e = ReadFrom Back Front n err"
    by simp
  moreover have "filter back_output t = Write Back (proxyHeader ip6 sa da) # filter back_output t'"
    by (simp add: t')
  ultimately show ?thesis by blast
qed

section \<open>The PROXY-v1 header on the wire\<close>

text \<open>
  Claim C1, as the code has it. In every run of a session with \<open>ProxyProto\<close> whose dial
  succeeded, the first call that puts bytes on the back-end socket writes the single line
  \<open>PROXY <PROTO> <SRC_IP> <DST_IP> <SRC_PORT> <DST_PORT>\r\n\<close>, and every later one is a
  copy from the front-end socket. \<open>PROTO\<close> is \<open>TCP4\<close> exactly when the peer address of
  the accepted connection is 4 bytes long, or 16 bytes long with ten zero bytes followed
  by \<open>0xff 0xff\<close>, and \<open>TCP6\<close> otherwise. The source is the peer address of the accepted
  connection; the destination is the peer address of the dialed connection, that is the
  back-end. So a client at \<open>127.0.0.1:A\<close> proxied to the back-end \<open>127.0.0.1:C\<close> gives
  \<open>PROXY TCP4 127.0.0.1 127.0.0.1 A C\r\n\<close>, whatever the port of the front-end listener.
\<close>

theorem proxy_header_line:
  "(ProxyProto proxy \<and> dial_result env = Inr (TCPConn dl da) \<longrightarrow>
     (\<forall>t \<in> session_traces (serve proxy ip6 (TCPConn sl sa) dst env).
        \<exists>rest. filter back_output t =
            Write Back (''PROXY '' @ (if isIPv4 (IP sa) then ''TCP4 '' else ''TCP6 '') @
                        IP_String ip6 (IP sa) @ '' '' @ IP_String ip6 (IP da) @ '' '' @
                        Itoa (Port sa) @ '' '' @ Itoa (Port da) @ [CHR 0x0D, CHR 0x0A]) # rest
          \<and> (\<forall>e \<in> set rest. \<exists>n err. e = ReadFrom Back Front n err)))
   \<and> (isIPv4 ip \<longleftrightarrow>
        length ip = 4 \<or>
        (length ip = 16 \<and> (\<forall>i<10. ip ! i = 0) \<and> ip ! 10 = 0xff \<and> ip ! 11 = 0xff))
   \<and> (IP sa = [127, 0, 0, 1] \<and> IP da = [127, 0, 0, 1] \<longrightarrow>
        proxyHeader ip6 sa da =
          ''PROXY TCP4 127.0.0.1 127.0.0.1 '' @ Itoa (Port sa) @ '' '' @ Itoa (Port da) @
          [CHR 0x0D, CHR 0x0A])"
proof -
  have a: "ProxyProto proxy \<and> dial_result env = Inr (TCPConn dl da) \<longrightarrow>
     (\<forall>t \<in> session_traces (serve proxy ip6 (TCPConn sl sa) dst env).
        \<exists>rest. filter back_output t =
            Write Back (''PROXY '' @ (if isIPv4 (IP sa) then ''TCP4 '' else ''TCP6 '') @
                        IP_String ip6 (IP sa) @ '' '' @ IP_String ip6 (IP da) @ '' '' @
                        Itoa (Port sa) @ '' '' @ Itoa (Port da) @ [CHR 0x0D, CHR 0x0A]) # rest
          \<and> (\<forall>e \<in> set rest. \<exists>n err. e = ReadFrom Back Front n err))"
    using session_header_first [of proxy env dl da _ ip6 sl sa dst]
    unfolding proxyHeader_line by blast
  have b: "isIPv4 ip \<longleftrightarrow>
        length ip = 4 \<or>
        (length ip = 16 \<and> (\<forall>i<10. ip ! i = 0) \<and> ip ! 10 = 0xff \<and> ip ! 11 = 0xff)"
    by (rule isIPv4_iff)
  have c: "IP sa = [127, 0, 0, 1] \<and> IP da = [127, 0, 0, 1] \<longrightarrow>
        proxyHeader ip6 sa da =
          ''PROXY TCP4 127.0.0.1 127.0.0.1 '' @ Itoa (Port sa) @ '' '' @ Itoa (Port da) @
          [CHR 0x0D, CHR 0x0A]"
    by (simp add: proxyHeader_line IP_String_loopback isIPv4_def)
  show ?thesis by (intro conjI a b c)
qed

theorem proxy_header_line_witness:
  "filter back_output
     [Dial ''127.0.0.1:9090'', LogInfo ''127.0.0.1'' ''127.0.0.1:9090'', PoolGet,
      Write Back (''PROXY TCP4 127.0.0.1 127.0.0.1 50000 9090'' @ [CHR 0x0D, CHR 0x0A]),
      Go (CopyConn True), Go (CopyConn False), ReadFrom Back Front 5 (Some EOF), AddBytesIn 5,
      CloseChan ErrIn, ConnClose Back] =
     [Write Back (''PROXY TCP4 127.0.0.1 127.0.0.1 50000 9090'' @ [CHR 0x0D, CHR 0x0A]),
      ReadFrom Back Front 5 (Some EOF)]
   \<and> [Dial ''127.0.0.1:9090'', LogInfo ''127.0.0.1'' ''127.0.0.1:9090'', PoolGet,
      Write Back (''PROXY TCP4 127.0.0.1 127.0.0.1 50000 9090'' @ [CHR 0x0D, CHR 0x0A]),
      Go (CopyConn True), Go (CopyConn False), ReadFrom Back Front 5 (Some EOF), AddBytesIn 5,
      CloseChan ErrIn, ConnClose Back]
     \<in> session_traces (serve (new_proxy ''p'' True 0 0 0 0) (\<lambda>ip. ''::1'')
          (TCPConn \<lparr>IP = [127, 0, 0, 1], Port = 8080\<rparr> \<lparr>IP = [127, 0, 0, 1], Port = 50000\<rparr>)
          ''127.0.0.1:9090''
          \<lparr>dial_result = Inr (TCPConn \<lparr>IP = [127, 0, 0, 1], Port = 50001\<rparr>
                                       \<lparr>IP = [127, 0, 0, 1], Port = 9090\<rparr>),
           write_result = None, select_taken = NoneReady,
           in_script = [(0, 5, Some EOF)], out_script = []\<rparr>)
   \<and> isIPv4 [127, 0, 0, 1]
   \<and> isIPv4 [0, 0, 0, 0, 0, 0, 0, 0, 0, 0, 0xff, 0xff, 10, 0, 0, 1]
   \<and> \<not> isIPv4 [0, 0, 0, 0, 0, 0, 0, 0, 0, 0, 0, 0, 0, 0, 0, 1]
   \<and> proxyHeader (\<lambda>ip. ''::1'') \<lparr>IP = [127, 0, 0, 1], Port = 50000\<rparr> \<lparr>IP = [127, 0, 0, 1], Port = 9090\<rparr> =
       ''PROXY TCP4 127.0.0.1 127.0.0.1 50000 9090'' @ [CHR 0x0D, CHR 0x0A]"
proof -
  let ?cfg = "new_proxy ''p'' True 0 0 0 0"
  let ?sa = "\<lparr>IP = [127, 0, 0, 1], Port = 50000\<rparr>"
  let ?da = "\<lparr>IP = [127, 0, 0, 1], Port = 9090\<rparr>"
  let ?sl = "\<lparr>IP = [127, 0, 0, 1], Port = 8080\<rparr>"
  let ?dl = "\<lparr>IP = [127, 0, 0, 1], Port = 50001\<rparr>"
  let ?env = "\<lparr>dial_result = Inr (TCPConn ?dl ?da),
           write_result = None, select_taken = NoneReady,
           in_script = [(0, 5, Some EOF)], out_script = []\<rparr>"
  let ?s = "serve ?cfg (\<lambda>ip. ''::1'') (TCPConn ?sl ?sa) ''127.0.0.1:9090'' ?env"
  let ?hdr = "''PROXY TCP4 127.0.0.1 127.0.0.1 50000 9090'' @ [CHR 0x0D, CHR 0x0A]"
  let ?t = "[Dial ''127.0.0.1:9090'', LogInfo ''127.0.0.1'' ''127.0.0.1:9090'', PoolGet,
      Write Back ?hdr,
      Go (CopyConn True), Go (CopyConn False), ReadFrom Back Front 5 (Some EOF), AddBytesIn 5,
      CloseChan ErrIn, ConnClose Back]"
  have n: "Itoa 50000 = ''50000''" "Itoa 9090 = ''9090''"
    by (simp_all add: Itoa_def digits_small digits_big)
  have h: "proxyHeader (\<lambda>ip. ''::1'') ?sa ?da = ?hdr"
    using proxy_header_line [of ?cfg ?env ?dl ?da "\<lambda>ip. ''::1''" ?sl ?sa "''127.0.0.1:9090''" "[]"]
    by (simp add: n)
  have v: "isIPv4 [127, 0, 0, 1]"
    "isIPv4 [0, 0, 0, 0, 0, 0, 0, 0, 0, 0, 0xff, 0xff, 10, 0, 0, 1]"
    "\<not> isIPv4 [0, 0, 0, 0, 0, 0, 0, 0, 0, 0, 0, 0, 0, 0, 0, 1]"
    by (simp_all add: isIPv4_def)
  have s: "?s = \<lparr>events = [Dial ''127.0.0.1:9090'', LogInfo ''127.0.0.1'' ''127.0.0.1:9090'',
                   PoolGet, Write Back ?hdr, Go (CopyConn True), Go (CopyConn False)],
                 pumps = Some ([ReadFrom Back Front 5 (Some EOF), AddBytesIn 5, CloseChan ErrIn,
                   ConnClose Back], []),
                 status = Blocked\<rparr>"
    by (simp add: serve_def new_proxy_def copyConn_def timeoutFunc_def IP_String_loopback n h)
  have t: "?t \<in> session_traces ?s"
    using session_sequential [of ?s _ "[]"] by (simp add: s)
  have pp: "ProxyProto ?cfg \<and> dial_result ?env = Inr (TCPConn ?dl ?da)"
    by (simp add: new_proxy_def)
  from proxy_header_line [of ?cfg ?env ?dl ?da "\<lambda>ip. ''::1''" ?sl ?sa "''127.0.0.1:9090''" "[]"] pp t
  have "\<exists>rest. filter back_output ?t = Write Back ?hdr # rest
          \<and> (\<forall>e \<in> set rest. \<exists>n err. e = ReadFrom Back Front n err)"
    by (simp add: IP_String_loopback n v)
  then have "filter back_output ?t = [Write Back ?hdr, ReadFrom Back Front 5 (Some EOF)]"
    by simp
  with t v h show ?thesis by simp
qed

text \<open>
  The front-end listens on port 8080, the client connects from port 50000 and the
  back-end is at port 9090: the header ends in \<open>50000 9090\<close>, not in \<open>50000 8080\<close>.
\<close>

theorem proxy_header_destination_port_counterexample:
  "[Dial ''127.0.0.1:9090'', LogInfo ''127.0.0.1'' ''127.0.0.1:9090'', PoolGet,
    Write Back (''PROXY TCP4 127.0.0.1 127.0.0.1 50000 9090'' @ [CHR 0x0D, CHR 0x0A]),
    Go (CopyConn True), Go (CopyConn False)]
     \<in> session_traces (serve (new_proxy ''p'' True 0 0 0 0) (\<lambda>ip. ''::1'')
          (TCPConn \<lparr>IP = [127, 0, 0, 1], Port = 8080\<rparr> \<lparr>IP = [127, 0, 0, 1], Port = 50000\<rparr>)
          ''127.0.0.1:9090''
          \<lparr>dial_result = Inr (TCPConn \<lparr>IP = [127, 0, 0, 1], Port = 50001\<rparr>
                                       \<lparr>IP = [127, 0, 0, 1], Port = 9090\<rparr>),
           write_result = None, select_taken = NoneReady, in_script = [], out_script = []\<rparr>)
   \<and> ''PROXY TCP4 127.0.0.1 127.0.0.1 50000 9090'' @ [CHR 0x0D, CHR 0x0A]
       \<noteq> ''PROXY TCP4 127.0.0.1 127.0.0.1 50000 8080'' @ [CHR 0x0D, CHR 0x0A]"
proof -
  let ?cfg = "new_proxy ''p'' True 0 0 0 0"
  let ?sa = "\<lparr>IP = [127, 0, 0, 1], Port = 50000\<rparr>"
  let ?da = "\<lparr>IP = [127, 0, 0, 1], Port = 9090\<rparr>"
  let ?sl = "\<lparr>IP = [127, 0, 0, 1], Port = 8080\<rparr>"
  let ?dl = "\<lparr>IP = [127, 0, 0, 1], Port = 50001\<rparr>"
  let ?env = "\<lparr>dial_result = Inr (TCPConn ?dl ?da),
           write_result = None, select_taken = NoneReady, in_script = [], out_script = []\<rparr>"
  let ?s = "serve ?cfg (\<lambda>ip. ''::1'') (TCPConn ?sl ?sa) ''127.0.0.1:9090'' ?env"
  let ?hdr = "''PROXY TCP4 127.0.0.1 127.0.0.1 50000 9090'' @ [CHR 0x0D, CHR 0x0A]"
  have n: "Itoa 50000 = ''50000''" "Itoa 9090 = ''9090''"
    by (simp_all add: Itoa_def digits_small digits_big)
  have h: "proxyHeader (\<lambda>ip. ''::1'') ?sa ?da = ?hdr"
    by (simp add: proxyHeader_line IP_String_loopback isIPv4_def n)
  have s: "?s = \<lparr>events = [Dial ''127.0.0.1:9090'', LogInfo ''127.0.0.1'' ''127.0.0.1:9090'',
                   PoolGet, Write Back ?hdr, Go (CopyConn True), Go (CopyConn False)],
                 pumps = Some ([], []), status = Blocked\<rparr>"
    by (simp add: serve_def new_proxy_def copyConn_def timeoutFunc_def IP_String_loopback n h)
  have "events ?s @ [] @ [] \<in> session_traces ?s"
    by (rule session_sequential) (simp_all add: s)
  then show ?thesis by (simp add: s)
qed


section \<open>Closing the sockets of a session\<close>




section \<open>The accept loop\<close>

text \<open>
  Claim C8. An iteration of the accept loop in which \<open>Accept\<close> returns an error. A
  temporary network error is logged, the loop sleeps one second and goes on with the next
  \<open>Accept\<close>. An error that is not temporary and is \<open>io.EOF\<close> (by \<open>errors.Is\<close>) makes
  \<open>Proxy\<close> return nil, with nothing logged. Any other error is logged and returned by
  \<open>Proxy\<close>.
\<close>

theorem accept_error_classes:
  "(is_net_temporary err \<longrightarrow>
      acceptInner (Inl err # queue) proxy =
        acceptInner queue
          (perform (Sleep 1000000000) (perform (LogError ''temp. accept error'' err) proxy)))
   \<and> (\<not> is_net_temporary err \<and> errors_Is err EOF \<longrightarrow>
        acceptLoop dst (False # checks) (Inl err # queue) proxy = (Some None, proxy))
   \<and> (\<not> is_net_temporary err \<and> \<not> errors_Is err EOF \<longrightarrow>
        acceptLoop dst (False # checks) (Inl err # queue) proxy =
          (Some (Some err), perform (LogError ''accept error'' err) proxy))
   \<and> (\<not> is_net_temporary err \<and> probe_dial env = None \<and> probe_close env = None \<and>
        listen_result env = None \<and> dones env = False # ds \<and> accepts env = Inl err # rest \<longrightarrow>
        fst (Proxy src dst env proxy) = (if errors_Is err EOF then Some None else Some (Some err)))"
  by (auto simp: Proxy_def Let_def)

theorem accept_error_classes_witness:
  "acceptInner [Inl (NetError False True (ErrorString ''too many open files'')),
                Inr (TCPConn \<lparr>IP = [127, 0, 0, 1], Port = 8080\<rparr> \<lparr>IP = [127, 0, 0, 1], Port = 50000\<rparr>)]
     (new_proxy ''p'' False 0 0 0 0) =
     (Some (Inr (TCPConn \<lparr>IP = [127, 0, 0, 1], Port = 8080\<rparr> \<lparr>IP = [127, 0, 0, 1], Port = 50000\<rparr>)), [],
      perform (Sleep 1000000000)
        (perform (LogError ''temp. accept error'' (NetError False True (ErrorString ''too many open files'')))
          (new_proxy ''p'' False 0 0 0 0)))
   \<and> acceptLoop ''127.0.0.1:9090'' [False] [Inl EOF] (new_proxy ''p'' False 0 0 0 0) =
       (Some None, new_proxy ''p'' False 0 0 0 0)
   \<and> acceptLoop ''127.0.0.1:9090'' [False] [Inl (NetError False False ErrClosed)]
        (new_proxy ''p'' False 0 0 0 0) =
       (Some (Some (NetError False False ErrClosed)),
        perform (LogError ''accept error'' (NetError False False ErrClosed)) (new_proxy ''p'' False 0 0 0 0))
   \<and> fst (Proxy '':8080'' ''127.0.0.1:9090''
          \<lparr>probe_dial = None, probe_close = None, listen_result = None, dones = [False],
           accepts = [Inl (NetError False False ErrClosed)]\<rparr> (new_proxy ''p'' False 0 0 0 0)) =
       Some (Some (NetError False False ErrClosed))"
proof -
  let ?tmp = "NetError False True (ErrorString ''too many open files'')"
  let ?cl = "NetError False False ErrClosed"
  let ?p = "new_proxy ''p'' False 0 0 0 0"
  let ?c = "TCPConn \<lparr>IP = [127, 0, 0, 1], Port = 8080\<rparr> \<lparr>IP = [127, 0, 0, 1], Port = 50000\<rparr>"
  let ?env = "\<lparr>probe_dial = None, probe_close = None, listen_result = None, dones = [False],
           accepts = [Inl ?cl]\<rparr>"
  from accept_error_classes [of ?tmp "[Inr ?c]" ?p "''127.0.0.1:9090''" "[]" ?env "[]" "[]" "'':8080''"]
  have a: "acceptInner [Inl ?tmp, Inr ?c] ?p =
     (Some (Inr ?c), [], perform (Sleep 1000000000) (perform (LogError ''temp. accept error'' ?tmp) ?p))"
    by simp
  from accept_error_classes [of EOF "[]" ?p "''127.0.0.1:9090''" "[]" ?env "[]" "[]" "'':8080''"]
  have b: "acceptLoop ''127.0.0.1:9090'' [False] [Inl EOF] ?p = (Some None, ?p)"
    by simp
  from accept_error_classes [of ?cl "[]" ?p "''127.0.0.1:9090''" "[]" ?env "[]" "[]" "'':8080''"]
  have c: "acceptLoop ''127.0.0.1:9090'' [False] [Inl ?cl] ?p =
       (Some (Some ?cl), perform (LogError ''accept error'' ?cl) ?p)"
    and d: "fst (Proxy '':8080'' ''127.0.0.1:9090'' ?env ?p) = Some (Some ?cl)"
    by simp_all
  from a b c d show ?thesis by simp
qed

section \<open>Close before the first Proxy\<close>

text \<open>
  Claim C10. \<open>Close\<close> on an instance as constructed, before any \<open>Proxy\<close> has run \<open>init\<close>,
  calls a nil \<open>cancel\<close> and panics. \<open>Close\<close> panics exactly when \<open>cancel\<close> is nil, and
  the first \<open>init\<close> assigns it.
\<close>

theorem Close_needs_init:
  "Close (new_proxy name proxyProto cKeepAlive sKeepAlive cTimeout sTimeout) = Panics
   \<and> (Close proxy = Panics \<longleftrightarrow> cancel proxy = None)
   \<and> (\<not> doOnce proxy \<longrightarrow> cancel (init proxy) = Some (contexts proxy) \<and> Close (init proxy) \<noteq> Panics)"
  by (auto simp: Close_def Wait_def new_proxy_def init_def split: option.splits)

theorem Close_needs_init_witness:
  "Close (new_proxy ''p'' False 0 0 0 0) = Panics
   \<and> cancel (init (new_proxy ''p'' False 0 0 0 0)) = Some 0
   \<and> Close (init (new_proxy ''p'' False 0 0 0 0)) \<noteq> Panics"
  using Close_needs_init [of "''p''" False 0 0 0 0 "new_proxy ''p'' False 0 0 0 0"]
  by (simp add: new_proxy_def)

section \<open>Statistics\<close>

text \<open>
  Claim C6, on the code. Two calls of \<open>Proxy\<close> on one instance, both listening and
  waiting in \<open>Accept\<close>: they share one context and cancel function, one listener
  configuration, one dialer and one buffer pool, made by the first call. Each call makes
  a timer of its own and starts a statistics goroutine of its own; the second timer
  replaces the first in the field \<open>statsTimer\<close>.
\<close>

theorem stats_task_per_call:
  "(let env = \<lparr>probe_dial = None, probe_close = None, listen_result = None,
               dones = [False], accepts = []\<rparr>;
        p1 = snd (Proxy '':8080'' ''127.0.0.1:9090'' env (new_proxy ''p'' False 0 0 0 0));
        p2 = snd (Proxy '':8081'' ''127.0.0.1:9091'' env p1)
    in contexts p1 = 1 \<and> contexts p2 = 1
     \<and> cancel p1 = Some 0 \<and> cancel p2 = Some 0
     \<and> baseCtx p1 = Some 0 \<and> baseCtx p2 = Some 0
     \<and> lnCfg p2 = lnCfg p1 \<and> dialer p2 = dialer p1
     \<and> ppool p1 = Some 107 \<and> ppool p2 = Some 107
     \<and> timers p1 = 1 \<and> timers p2 = 2
     \<and> statsTimer p1 = Some 0 \<and> statsTimer p2 = Some 1
     \<and> count_list (trace p1) (Go StatsLoop) = 1
     \<and> count_list (trace p2) (Go StatsLoop) = 2)"
  by (simp add: Let_def Proxy_def init_def startStatsTimer_def perform_def new_proxy_def)

text \<open>
  Claim C7, on the code. The pump from front to back, whose \<open>ReadFrom\<close> moved 100 bytes
  and returned an error that is neither nil, \<open>io.EOF\<close>, \<open>net.ErrClosed\<close> nor a timeout:
  the error is sent and \<open>bytesIn\<close> stays as it was. With \<open>io.EOF\<close> in its place the 100
  bytes are added.
\<close>

theorem bytes_uncounted_on_other_error:
  "copyConn Back Front ErrIn (timeoutFunc 0 (SetReadDeadline Front)) True
     [(0, 100, Some (ErrorString ''connection reset by peer''))] =
     ([ReadFrom Back Front 100 (Some (ErrorString ''connection reset by peer'')),
       Send ErrIn (ErrorString ''connection reset by peer''), CloseChan ErrIn, ConnClose Back], True)
   \<and> bytesIn (performs
        [ReadFrom Back Front 100 (Some (ErrorString ''connection reset by peer'')),
         Send ErrIn (ErrorString ''connection reset by peer''), CloseChan ErrIn, ConnClose Back]
        (new_proxy ''p'' False 0 0 0 0)) = 0
   \<and> copyConn Back Front ErrIn (timeoutFunc 0 (SetReadDeadline Front)) True [(0, 100, Some EOF)] =
     ([ReadFrom Back Front 100 (Some EOF), AddBytesIn 100, CloseChan ErrIn, ConnClose Back], True)
   \<and> bytesIn (performs
        [ReadFrom Back Front 100 (Some EOF), AddBytesIn 100, CloseChan ErrIn, ConnClose Back]
        (new_proxy ''p'' False 0 0 0 0)) = 100"
  by (simp add: copyConn_def timeoutFunc_def performs_def perform_def addBytesIn_def new_proxy_def)

section \<open>The counters of an instance\<close>

lemma serve_tail:
  "\<exists>body. (\<forall>e \<in> set body. \<not> counting e) \<and>
     (if status (serve proxy ip6 sConn dst env) = Blocked
      then events (serve proxy ip6 sConn dst env) = body
      else events (serve proxy ip6 sConn dst env) = body @ [AddOpen (- 1), WgDone])"
  by (auto simp: serve_def Let_def split: sum.splits conn.splits prod.splits option.splits select_case.splits)

lemma serve_Blocked_iff:
  "status (serve proxy ip6 sConn dst env) = Blocked \<longleftrightarrow>
     (\<exists>dl da sl sa. dial_result env = Inr (TCPConn dl da) \<and> sConn = TCPConn sl sa) \<and>
     \<not> (ProxyProto proxy \<and> write_result env \<noteq> None) \<and>
     (select_taken env = NoneReady
      \<or> select_taken env = RecvErrIn \<and>
          \<not> snd (copyConn Back Front ErrIn
                   (timeoutFunc (ClientTimeout proxy) (SetReadDeadline Front)) True (in_script env))
      \<or> select_taken env = RecvErrOut \<and>
          \<not> snd (copyConn Front Back ErrOut
                   (timeoutFunc (ServerTimeout proxy) (SetWriteDeadline Front)) False (out_script env)))"
  by (auto simp: serve_def Let_def split: sum.splits conn.splits prod.splits option.splits select_case.splits)

lemma length_filter_update:
  "i < length xs \<Longrightarrow>
   length (filter P (xs[i := y])) + (if P (xs ! i) then 1 else 0) =
   length (filter P xs) + (if P y then 1 else 0)"
proof (induction xs arbitrary: i)
  case Nil
  then show ?case by simp
next
  case (Cons x xs)
  then show ?case by (cases i) auto
qed

lemma perform_fields [simp]:
  "drivers (perform ev s) = drivers s"
  "cancel (perform ev s) = cancel s"
  "baseCtx (perform ev s) = baseCtx s"
  "cancelled (perform ev s) = cancelled s"
  "doOnce (perform ev s) = doOnce s"
  by (auto simp: perform_def addBytesIn_def addBytesOut_def split: event.splits)

lemma perform_open:
  "open (perform ev s) = (case ev of AddOpen d \<Rightarrow> open s + d | _ \<Rightarrow> open s)"
  by (auto simp: perform_def addBytesIn_def addBytesOut_def split: event.splits)

lemma perform_serveWg:
  "serveWg (perform ev s) =
     (case ev of WgAdd n \<Rightarrow> serveWg s + n | WgDone \<Rightarrow> serveWg s - 1 | _ \<Rightarrow> serveWg s)"
  by (auto simp: perform_def addBytesIn_def addBytesOut_def split: event.splits)

text \<open>Where the two counting events of a driver stand among its events.\<close>

lemma tail_split:
  assumes eq: "performed @ ev # rest = body @ tail"
    and body: "\<forall>e \<in> set body. \<not> counting e"
    and tail: "tail = [] \<or> tail = [AddOpen (- 1), WgDone]"
    and ev: "counting ev"
  shows "(ev = AddOpen (- 1) \<and> performed = body \<and> rest = [WgDone])
       \<or> (ev = WgDone \<and> performed = body @ [AddOpen (- 1)] \<and> rest = [])"
proof -
  from eq body ev have "tail \<noteq> []" by auto
  with tail have t: "tail = [AddOpen (- 1), WgDone]" by simp
  from eq [unfolded t] body ev show ?thesis
    by (auto simp: append_eq_append_conv2 append_eq_Cons_conv Cons_eq_append_conv)
qed

lemma consistent_new:
  "consistent (new_proxy name proxyProto cKeepAlive sKeepAlive cTimeout sTimeout)"
  by (simp add: consistent_def new_proxy_def undecremented_def unfinished_def)

lemma consistent_init: "consistent s \<Longrightarrow> consistent (init s)"
  by (auto simp: consistent_def init_def undecremented_def unfinished_def)

lemma consistent_startStatsTimer: "consistent s \<Longrightarrow> consistent (startStatsTimer s)"
  by (auto simp: consistent_def startStatsTimer_def undecremented_def unfinished_def
        perform_open perform_serveWg)

lemma consistent_cancel:
  "consistent s \<Longrightarrow> consistent (s\<lparr>cancelled := c\<rparr>)"
  by (auto simp: consistent_def undecremented_def unfinished_def)

lemma consistent_accepted: 
  assumes "consistent s"
  shows "consistent (accepted ip6 sConn dst env s)"
proof -
  from serve_tail [of s ip6 sConn dst env]
  obtain body tail where "events (serve s ip6 sConn dst env) = body @ tail"
    "\<forall>e \<in> set body. \<not> counting e" "tail = [] \<or> tail = [AddOpen (- 1), WgDone]"
    by (auto split: if_splits)
  then have new: "\<exists>body tail. [] @ events (serve s ip6 sConn dst env) = body @ tail \<and>
      (\<forall>e \<in> set body. \<not> counting e) \<and> (tail = [] \<or> tail = [AddOpen (- 1), WgDone])"
    by auto
  with assms show ?thesis
    by (auto simp: consistent_def accepted_def undecremented_def unfinished_def
          perform_open perform_serveWg)
qed

lemma consistent_drivers:
  "consistent s \<Longrightarrow> (p, r) \<in> set (drivers s) \<Longrightarrow>
   \<exists>body tail. p @ r = body @ tail \<and> (\<forall>e \<in> set body. \<not> counting e) \<and>
     (tail = [] \<or> tail = [AddOpen (- 1), WgDone])"
  unfolding consistent_def by (elim conjE) (drule (1) bspec, simp)

lemma consistent_driver_step:
  assumes c: "consistent s"
  shows "consistent (driver_step i s)"
proof (cases "i < length (drivers s)")
  case False
  with c show ?thesis by (simp add: driver_step_def)
next
  case i: True
  obtain performed todo where d: "drivers s ! i = (performed, todo)"
    by (cases "drivers s ! i") auto
  show ?thesis
  proof (cases todo)
    case Nil
    with c i d show ?thesis by (simp add: driver_step_def)
  next
    case (Cons ev rest)
    let ?s' = "(perform ev s)\<lparr>drivers := (drivers s)[i := (performed @ [ev], rest)]\<rparr>"
    let ?A = "\<lambda>(performed, rest). AddOpen (- 1) \<notin> set performed"
    let ?W = "\<lambda>(performed, rest). WgDone \<notin> set performed"
    have s': "driver_step i s = ?s'"
      using i d Cons by (simp add: driver_step_def)
    from i d have mem: "(performed, todo) \<in> set (drivers s)"
      by (metis nth_mem)
    from consistent_drivers [OF c mem] obtain body tail where
      eq: "performed @ ev # rest = body @ tail" and
      body: "\<forall>e \<in> set body. \<not> counting e" and
      tail: "tail = [] \<or> tail = [AddOpen (- 1), WgDone]"
      unfolding Cons by blast
    have drv: "\<forall>(p, r) \<in> set ((drivers s)[i := (performed @ [ev], rest)]).
        \<exists>body tail. p @ r = body @ tail \<and> (\<forall>e \<in> set body. \<not> counting e) \<and>
          (tail = [] \<or> tail = [AddOpen (- 1), WgDone])"
    proof (rule ballI)
      fix x assume x: "x \<in> set ((drivers s)[i := (performed @ [ev], rest)])"
      obtain p r where pr: "x = (p, r)" by (cases x) auto
      from x set_update_subset_insert [of "drivers s" i "(performed @ [ev], rest)"]
      have "x = (performed @ [ev], rest) \<or> x \<in> set (drivers s)" by blast
      then have "\<exists>body tail. p @ r = body @ tail \<and> (\<forall>e \<in> set body. \<not> counting e) \<and>
          (tail = [] \<or> tail = [AddOpen (- 1), WgDone])"
      proof
        assume "x = (performed @ [ev], rest)"
        with pr have "p = performed @ [ev]" "r = rest" by simp_all
        with eq have "p @ r = body @ tail" by simp
        with body tail show ?thesis by blast
      next
        assume "x \<in> set (drivers s)"
        with pr c show ?thesis by (rule_tac consistent_drivers) auto
      qed
      with pr show "case x of (p, r) \<Rightarrow>
        \<exists>body tail. p @ r = body @ tail \<and> (\<forall>e \<in> set body. \<not> counting e) \<and>
          (tail = [] \<or> tail = [AddOpen (- 1), WgDone])"
        by simp
    qed
    have und: "undecremented ?s' + (if AddOpen (- 1) \<notin> set performed then 1 else 0) =
               undecremented s + (if AddOpen (- 1) \<notin> set (performed @ [ev]) then 1 else 0)"
      using length_filter_update [OF i, of ?A "(performed @ [ev], rest)"] d
      by (simp add: undecremented_def)
    have unf: "unfinished ?s' + (if WgDone \<notin> set performed then 1 else 0) =
               unfinished s + (if WgDone \<notin> set (performed @ [ev]) then 1 else 0)"
      using length_filter_update [OF i, of ?W "(performed @ [ev], rest)"] d
      by (simp add: unfinished_def)
    from c have o: "open s = of_nat (undecremented s)" and w: "serveWg s = int (unfinished s)"
      and cb: "cancel s = baseCtx s"
      by (simp_all add: consistent_def)
    show ?thesis
    proof (cases "counting ev")
      case False
      then have "ev \<noteq> AddOpen (- 1)" "ev \<noteq> WgDone" by auto
      with und unf have "undecremented ?s' = undecremented s" "unfinished ?s' = unfinished s"
        by (auto split: if_splits)
      moreover from False have "open (perform ev s) = open s" "serveWg (perform ev s) = serveWg s"
        by (cases ev; simp add: perform_open perform_serveWg)+
      ultimately show ?thesis
        using o w cb drv unfolding s' consistent_def by simp
    next
      case True
      from tail_split [OF eq body tail True]
      consider (dec) "ev = AddOpen (- 1)" "performed = body" "rest = [WgDone]"
        | (fin) "ev = WgDone" "performed = body @ [AddOpen (- 1)]" "rest = []"
        by blast
      then show ?thesis
      proof cases
        case dec
        with body have nb: "AddOpen (- 1) \<notin> set performed" "WgDone \<notin> set performed"
          by auto
        with und unf dec have u: "undecremented s = undecremented ?s' + 1"
          "unfinished ?s' = unfinished s"
          by (auto split: if_splits)
        have "open (perform ev s) = of_nat (undecremented ?s')"
          using o u(1) dec(1) by (simp add: perform_open)
        moreover have "serveWg (perform ev s) = int (unfinished ?s')"
          using w u(2) dec(1) by (simp add: perform_serveWg)
        ultimately show ?thesis
          using cb drv unfolding s' consistent_def by simp
      next
        case fin
        with body have nb: "AddOpen (- 1) \<in> set performed" "WgDone \<notin> set performed"
          by auto
        with und unf fin have u: "undecremented ?s' = undecremented s"
          "unfinished s = unfinished ?s' + 1"
          by (auto split: if_splits)
        have "open (perform ev s) = of_nat (undecremented ?s')"
          using o u(1) fin(1) by (simp add: perform_open)
        moreover have "serveWg (perform ev s) = int (unfinished ?s')"
          using w u(2) fin(1) by (simp add: perform_serveWg)
        ultimately show ?thesis
          using cb drv unfolding s' consistent_def by simp
      qed
    qed
  qed
qed

lemma consistent_step: "consistent s \<Longrightarrow> consistent (step ip6 a s)"
  by (cases a)
     (auto simp: consistent_init consistent_startStatsTimer consistent_accepted
        consistent_driver_step consistent_cancel split: option.splits)

lemma consistent_run: "consistent s \<Longrightarrow> consistent (run ip6 acts s)"
  unfolding run_def
  by (induction acts arbitrary: s) (simp_all add: consistent_step)

lemma sint_of_nat_small:
  assumes "n < 2 ^ 63"
  shows "sint (of_nat n :: 64 word) = int n"
proof -
  have "sint (of_nat n :: 64 word) = (int n + 2 ^ 63) mod 2 ^ 64 - 2 ^ 63"
    using int_word_sint [of "int n", where 'a = 64] by simp
  moreover from assms have "int n < 2 ^ 63"
    by (metis of_nat_less_iff of_nat_numeral of_nat_power)
  then have "(int n + 2 ^ 63) mod 2 ^ 64 = int n + 2 ^ 63"
    by (intro mod_pos_pos_trivial) simp_all
  ultimately show ?thesis by simp
qed

lemma done_split:
  assumes eq: "performed @ rest = body @ tail"
    and body: "\<forall>e \<in> set body. \<not> counting e"
    and tail: "tail = [] \<or> tail = [AddOpen (- 1), WgDone]"
    and w: "WgDone \<in> set performed"
  shows "rest = [] \<and> AddOpen (- 1) \<in> set performed"
proof -
  have "tail \<noteq> []"
  proof
    assume "tail = []"
    with eq w have "WgDone \<in> set body" by auto
    with body have "\<not> counting WgDone" by blast
    then show False by simp
  qed
  with tail have t: "tail = [AddOpen (- 1), WgDone]" by simp
  from body have nb: "WgDone \<notin> set body" by auto
  from eq [unfolded t] nb w show ?thesis
    by (auto simp: append_eq_append_conv2 append_eq_Cons_conv Cons_eq_append_conv)
qed

lemma unfinished_zero:
  assumes "unfinished s = 0" and "(p, r) \<in> set (drivers s)"
  shows "WgDone \<in> set p"
proof -
  from assms(1) have "filter (\<lambda>(performed, rest). WgDone \<notin> set performed) (drivers s) = []"
    by (simp add: unfinished_def)
  with assms(2) show ?thesis
    by (auto simp: filter_empty_conv)
qed

lemma consistent_finished:
  assumes c: "consistent s" and z: "serveWg s = 0" and m: "(p, r) \<in> set (drivers s)"
  shows "r = [] \<and> AddOpen (- 1) \<in> set p \<and> WgDone \<in> set p"
proof -
  from c z have "unfinished s = 0" by (simp add: consistent_def)
  then have w: "WgDone \<in> set p" using m by (rule unfinished_zero)
  from consistent_drivers [OF c m] obtain body tail where
    "p @ r = body @ tail" "\<forall>e \<in> set body. \<not> counting e"
    "tail = [] \<or> tail = [AddOpen (- 1), WgDone]"
    by blast
  from done_split [OF this w] w show ?thesis by simp
qed

lemma acceptInner_open:
  "acceptInner queue proxy = (r, rest, proxy') \<Longrightarrow> open proxy' = open proxy \<and> serveWg proxy' = serveWg proxy"
  by (induction queue proxy rule: acceptInner.induct)
     (auto simp: perform_open perform_serveWg split: if_splits)

text \<open>
  Claim C4. A driver that has ended, by return or by panic, has performed exactly one
  decrement of \<open>open\<close>: its events end with the decrement and \<open>serveWg.Done()\<close>, and no
  other event touches \<open>open\<close>. A driver has not ended only while it waits in its
  \<open>select\<close>, and then it has not touched \<open>open\<close>. The accept loop increments \<open>open\<close>
  exactly once for each connection it accepts, just before it starts the driver. So
  after any steps of an instance, \<open>open\<close> is the number of drivers that have not yet
  decremented it, as a 64-bit value; with fewer than \<open>2^63\<close> such drivers it reads as that
  number and is not negative.
\<close>

theorem open_connections:
  "(status (serve proxy ip6 sConn dst env) \<noteq> Blocked \<longrightarrow>
      (\<exists>body. events (serve proxy ip6 sConn dst env) = body @ [AddOpen (- 1), WgDone] \<and>
         (\<forall>d. AddOpen d \<notin> set body) \<and> WgDone \<notin> set body))
   \<and> (status (serve proxy ip6 sConn dst env) = Blocked \<longrightarrow>
        (\<forall>d. AddOpen d \<notin> set (events (serve proxy ip6 sConn dst env))))
   \<and> (status (serve proxy ip6 sConn dst env) = Blocked \<longleftrightarrow>
        (\<exists>dl da sl sa. dial_result env = Inr (TCPConn dl da) \<and> sConn = TCPConn sl sa) \<and>
        \<not> (ProxyProto proxy \<and> write_result env \<noteq> None) \<and>
        (select_taken env = NoneReady
         \<or> select_taken env = RecvErrIn \<and>
             \<not> snd (copyConn Back Front ErrIn
                      (timeoutFunc (ClientTimeout proxy) (SetReadDeadline Front)) True (in_script env))
         \<or> select_taken env = RecvErrOut \<and>
             \<not> snd (copyConn Front Back ErrOut
                      (timeoutFunc (ServerTimeout proxy) (SetWriteDeadline Front)) False (out_script env))))
   \<and> (acceptInner queue p = (Some (Inr conn), rest, p') \<longrightarrow>
        open p' = open p \<and>
        acceptLoop dst (False # checks) queue p =
          acceptLoop dst checks rest
            (perform (Go (Serve conn dst)) (perform (AddOpen 1) (perform (WgAdd 1) p'))))
   \<and> open (run ip6 acts (new_proxy name proxyProto cKeepAlive sKeepAlive cTimeout sTimeout)) =
       of_nat (undecremented (run ip6 acts (new_proxy name proxyProto cKeepAlive sKeepAlive cTimeout sTimeout)))
   \<and> (undecremented (run ip6 acts (new_proxy name proxyProto cKeepAlive sKeepAlive cTimeout sTimeout)) < 2 ^ 63 \<longrightarrow>
        0 \<le> sint (open (run ip6 acts (new_proxy name proxyProto cKeepAlive sKeepAlive cTimeout sTimeout))) \<and>
        sint (open (run ip6 acts (new_proxy name proxyProto cKeepAlive sKeepAlive cTimeout sTimeout))) =
          int (undecremented (run ip6 acts (new_proxy name proxyProto cKeepAlive sKeepAlive cTimeout sTimeout))))"
proof -
  let ?s = "serve proxy ip6 sConn dst env"
  let ?r = "run ip6 acts (new_proxy name proxyProto cKeepAlive sKeepAlive cTimeout sTimeout)"
  from serve_tail [of proxy ip6 sConn dst env] obtain body where
    body: "\<forall>e \<in> set body. \<not> counting e" and
    ev: "if status ?s = Blocked then events ?s = body else events ?s = body @ [AddOpen (- 1), WgDone]"
    by blast
  from body have nb: "\<forall>d. AddOpen d \<notin> set body" "WgDone \<notin> set body" by auto
  have a: "status ?s \<noteq> Blocked \<longrightarrow>
      (\<exists>body. events ?s = body @ [AddOpen (- 1), WgDone] \<and>
         (\<forall>d. AddOpen d \<notin> set body) \<and> WgDone \<notin> set body)"
    using ev nb by auto
  have b: "status ?s = Blocked \<longrightarrow> (\<forall>d. AddOpen d \<notin> set (events ?s))"
    using ev nb by auto
  note c = serve_Blocked_iff [of proxy ip6 sConn dst env]
  have d: "acceptInner queue p = (Some (Inr conn), rest, p') \<longrightarrow>
        open p' = open p \<and>
        acceptLoop dst (False # checks) queue p =
          acceptLoop dst checks rest
            (perform (Go (Serve conn dst)) (perform (AddOpen 1) (perform (WgAdd 1) p')))"
    using acceptInner_open [of queue p "Some (Inr conn)" rest p'] by simp
  have cons: "consistent ?r"
    by (intro consistent_run consistent_new)
  then have e: "open ?r = of_nat (undecremented ?r)"
    by (simp add: consistent_def)
  have f: "undecremented ?r < 2 ^ 63 \<longrightarrow>
        0 \<le> sint (open ?r) \<and> sint (open ?r) = int (undecremented ?r)"
    using sint_of_nat_small [of "undecremented ?r"] e by simp
  show ?thesis by (intro conjI a b c d e f)
qed

lemma serve_dial_error:
  "serve proxy ip6 sConn dst
     \<lparr>dial_result = Inl err, write_result = w, select_taken = sel, in_script = i, out_script = out\<rparr> =
   \<lparr>events = [Dial dst, LogError ''dial error'' err, AddOpen (- 1), WgDone],
    pumps = None, status = Returned\<rparr>"
  by (simp add: serve_def)

lemma run_Cons: "run ip6 (a # acts) s = run ip6 acts (step ip6 a s)"
  by (simp add: run_def)

lemma run_Nil: "run ip6 [] s = s"
  by (simp add: run_def)

theorem open_connections_witness:
  "events (serve (new_proxy ''p'' False 0 0 0 0) (\<lambda>ip. ''::1'')
      (TCPConn \<lparr>IP = [127, 0, 0, 1], Port = 8080\<rparr> \<lparr>IP = [127, 0, 0, 1], Port = 50000\<rparr>)
      ''127.0.0.1:9090''
      \<lparr>dial_result = Inl (ErrorString ''connection refused''), write_result = None,
       select_taken = NoneReady, in_script = [], out_script = []\<rparr>) =
     [Dial ''127.0.0.1:9090'', LogError ''dial error'' (ErrorString ''connection refused'')] @
     [AddOpen (- 1), WgDone]
   \<and> undecremented (run (\<lambda>ip. ''::1'')
        [CallProxy '':8080'' ''127.0.0.1:9090'',
         Accepted (TCPConn \<lparr>IP = [127, 0, 0, 1], Port = 8080\<rparr> \<lparr>IP = [127, 0, 0, 1], Port = 50000\<rparr>)
           ''127.0.0.1:9090''
           \<lparr>dial_result = Inl (ErrorString ''connection refused''), write_result = None,
            select_taken = NoneReady, in_script = [], out_script = []\<rparr>,
         DriverStep 0, DriverStep 0]
        (new_proxy ''p'' False 0 0 0 0)) = 1
   \<and> sint (open (run (\<lambda>ip. ''::1'')
        [CallProxy '':8080'' ''127.0.0.1:9090'',
         Accepted (TCPConn \<lparr>IP = [127, 0, 0, 1], Port = 8080\<rparr> \<lparr>IP = [127, 0, 0, 1], Port = 50000\<rparr>)
           ''127.0.0.1:9090''
           \<lparr>dial_result = Inl (ErrorString ''connection refused''), write_result = None,
            select_taken = NoneReady, in_script = [], out_script = []\<rparr>,
         DriverStep 0, DriverStep 0]
        (new_proxy ''p'' False 0 0 0 0))) = 1
   \<and> undecremented (run (\<lambda>ip. ''::1'')
        [CallProxy '':8080'' ''127.0.0.1:9090'',
         Accepted (TCPConn \<lparr>IP = [127, 0, 0, 1], Port = 8080\<rparr> \<lparr>IP = [127, 0, 0, 1], Port = 50000\<rparr>)
           ''127.0.0.1:9090''
           \<lparr>dial_result = Inl (ErrorString ''connection refused''), write_result = None,
            select_taken = NoneReady, in_script = [], out_script = []\<rparr>,
         DriverStep 0, DriverStep 0, DriverStep 0]
        (new_proxy ''p'' False 0 0 0 0)) = 0
   \<and> sint (open (run (\<lambda>ip. ''::1'')
        [CallProxy '':8080'' ''127.0.0.1:9090'',
         Accepted (TCPConn \<lparr>IP = [127, 0, 0, 1], Port = 8080\<rparr> \<lparr>IP = [127, 0, 0, 1], Port = 50000\<rparr>)
           ''127.0.0.1:9090''
           \<lparr>dial_result = Inl (ErrorString ''connection refused''), write_result = None,
            select_taken = NoneReady, in_script = [], out_script = []\<rparr>,
         DriverStep 0, DriverStep 0, DriverStep 0]
        (new_proxy ''p'' False 0 0 0 0))) = 0
   \<and> acceptLoop ''127.0.0.1:9090'' [False]
        [Inr (TCPConn \<lparr>IP = [127, 0, 0, 1], Port = 8080\<rparr> \<lparr>IP = [127, 0, 0, 1], Port = 50000\<rparr>)]
        (new_proxy ''p'' False 0 0 0 0) =
       (None,
        perform (Go (Serve (TCPConn \<lparr>IP = [127, 0, 0, 1], Port = 8080\<rparr> \<lparr>IP = [127, 0, 0, 1], Port = 50000\<rparr>)
                   ''127.0.0.1:9090''))
          (perform (AddOpen 1) (perform (WgAdd 1) (new_proxy ''p'' False 0 0 0 0))))
   \<and> status (serve (new_proxy ''p'' False 0 0 0 0) (\<lambda>ip. ''::1'')
      (TCPConn \<lparr>IP = [127, 0, 0, 1], Port = 8080\<rparr> \<lparr>IP = [127, 0, 0, 1], Port = 50000\<rparr>)
      ''127.0.0.1:9090''
      \<lparr>dial_result = Inr (TCPConn \<lparr>IP = [127, 0, 0, 1], Port = 50001\<rparr>
                                   \<lparr>IP = [127, 0, 0, 1], Port = 9090\<rparr>),
       write_result = None, select_taken = NoneReady, in_script = [], out_script = []\<rparr>) = Blocked
   \<and> AddOpen (- 1) \<notin> set (events (serve (new_proxy ''p'' False 0 0 0 0) (\<lambda>ip. ''::1'')
      (TCPConn \<lparr>IP = [127, 0, 0, 1], Port = 8080\<rparr> \<lparr>IP = [127, 0, 0, 1], Port = 50000\<rparr>)
      ''127.0.0.1:9090''
      \<lparr>dial_result = Inr (TCPConn \<lparr>IP = [127, 0, 0, 1], Port = 50001\<rparr>
                                   \<lparr>IP = [127, 0, 0, 1], Port = 9090\<rparr>),
       write_result = None, select_taken = NoneReady, in_script = [], out_script = []\<rparr>))"
proof -
  let ?p = "new_proxy ''p'' False 0 0 0 0"
  let ?ip6 = "\<lambda>ip :: 8 word list. ''::1''"
  let ?c = "TCPConn \<lparr>IP = [127, 0, 0, 1], Port = 8080\<rparr> \<lparr>IP = [127, 0, 0, 1], Port = 50000\<rparr>"
  let ?dst = "''127.0.0.1:9090''"
  let ?env = "\<lparr>dial_result = Inl (ErrorString ''connection refused''), write_result = None,
       select_taken = NoneReady, in_script = [], out_script = []\<rparr>"
  let ?a2 = "[CallProxy '':8080'' ?dst, Accepted ?c ?dst ?env, DriverStep 0, DriverStep 0]"
  let ?a3 = "[CallProxy '':8080'' ?dst, Accepted ?c ?dst ?env, DriverStep 0, DriverStep 0, DriverStep 0]"
  have st: "status (serve ?p ?ip6 ?c ?dst ?env) \<noteq> Blocked"
    by (simp add: serve_dial_error)
  have u2: "undecremented (run ?ip6 ?a2 ?p) = 1"
    by (simp add: run_Cons run_Nil accepted_def driver_step_def init_def startStatsTimer_def
          perform_def new_proxy_def serve_dial_error undecremented_def)
  have u3: "undecremented (run ?ip6 ?a3 ?p) = 0"
    by (simp add: run_Cons run_Nil accepted_def driver_step_def init_def startStatsTimer_def
          perform_def new_proxy_def serve_dial_error undecremented_def)
  have ai: "acceptInner [Inr ?c] ?p = (Some (Inr ?c), [], ?p)" by simp
  note t2 = open_connections [of ?p ?ip6 ?c ?dst ?env "[Inr ?c]" ?p ?c "[]" ?p "[]" ?a2
      "''p''" False 0 0 0 0]
  note t3 = open_connections [of ?p ?ip6 ?c ?dst ?env "[Inr ?c]" ?p ?c "[]" ?p "[]" ?a3
      "''p''" False 0 0 0 0]
  from t2 st have ev: "events (serve ?p ?ip6 ?c ?dst ?env) =
     [Dial ?dst, LogError ''dial error'' (ErrorString ''connection refused'')] @ [AddOpen (- 1), WgDone]"
    by (simp add: serve_dial_error)
  from t2 u2 have o2: "sint (open (run ?ip6 ?a2 ?p)) = 1" by simp
  from t3 u3 have o3: "sint (open (run ?ip6 ?a3 ?p)) = 0" by simp
  from t2 ai have al: "acceptLoop ?dst [False] [Inr ?c] ?p =
       (None, perform (Go (Serve ?c ?dst)) (perform (AddOpen 1) (perform (WgAdd 1) ?p)))"
    by simp
  let ?envB = "\<lparr>dial_result = Inr (TCPConn \<lparr>IP = [127, 0, 0, 1], Port = 50001\<rparr>
                                   \<lparr>IP = [127, 0, 0, 1], Port = 9090\<rparr>),
       write_result = None, select_taken = NoneReady, in_script = [], out_script = []\<rparr>"
  note tB = open_connections [of ?p ?ip6 ?c ?dst ?envB "[Inr ?c]" ?p ?c "[]" ?p "[]" "[]"
      "''p''" False 0 0 0 0]
  have stB: "status (serve ?p ?ip6 ?c ?dst ?envB) = Blocked"
    by (simp add: serve_def new_proxy_def copyConn_def)
  from tB stB have nB: "AddOpen (- 1) \<notin> set (events (serve ?p ?ip6 ?c ?dst ?envB))"
    by blast
  from ev u2 o2 u3 o3 al stB nB show ?thesis by simp
qed

lemma Wait_finished:
  assumes c: "consistent s" and w: "Wait s = Returns s'"
  shows "s' = s \<and> serveWg s = 0 \<and>
         (\<forall>(performed, rest) \<in> set (drivers s).
            rest = [] \<and> AddOpen (- 1) \<in> set performed \<and> WgDone \<in> set performed)"
proof -
  from w have z: "serveWg s = 0" and s': "s' = s"
    by (auto simp: Wait_def split: if_splits)
  from consistent_finished [OF c z] z s' show ?thesis by auto
qed

section \<open>Close\<close>

text \<open>
  Claim C5, as the code has it. \<open>Close\<close> cancels the context and waits on the wait
  group, which counts the session drivers (the \<open>serve\<close> routines) and not their pumps.
  When it returns, from any state an instance can reach, every driver started so far has
  run to its end: it has decremented \<open>open\<close> and called \<open>serveWg.Done()\<close>. A second
  \<open>Close\<close> on that state returns at once and leaves the state as it is. While a driver
  has not called \<open>Done\<close>, \<open>Close\<close> has cancelled the context and is still waiting; the
  wait returns only in a state where all drivers have ended.
\<close>

theorem Close_waits_for_sessions:
  "(Close (run ip6 acts (new_proxy name proxyProto cKeepAlive sKeepAlive cTimeout sTimeout)) = Returns s' \<longrightarrow>
      (\<exists>ctx. baseCtx s' = Some ctx \<and> ctx \<in> cancelled s') \<and> serveWg s' = 0 \<and>
      (\<forall>(performed, rest) \<in> set (drivers s').
         rest = [] \<and> AddOpen (- 1) \<in> set performed \<and> WgDone \<in> set performed) \<and>
      Close s' = Returns s')
   \<and> (Close (run ip6 acts (new_proxy name proxyProto cKeepAlive sKeepAlive cTimeout sTimeout)) = Waits s' \<longrightarrow>
      (\<exists>ctx. baseCtx s' = Some ctx \<and> ctx \<in> cancelled s') \<and>
      (\<exists>(performed, rest) \<in> set (drivers s'). WgDone \<notin> set performed))
   \<and> (Wait (run ip6 acts (new_proxy name proxyProto cKeepAlive sKeepAlive cTimeout sTimeout)) = Returns s' \<longrightarrow>
      (\<forall>(performed, rest) \<in> set (drivers s').
         rest = [] \<and> AddOpen (- 1) \<in> set performed \<and> WgDone \<in> set performed))"
proof -
  let ?r = "run ip6 acts (new_proxy name proxyProto cKeepAlive sKeepAlive cTimeout sTimeout)"
  have cons: "consistent ?r"
    by (intro consistent_run consistent_new)
  have a: "Close ?r = Returns s' \<longrightarrow>
      (\<exists>ctx. baseCtx s' = Some ctx \<and> ctx \<in> cancelled s') \<and> serveWg s' = 0 \<and>
      (\<forall>(performed, rest) \<in> set (drivers s').
         rest = [] \<and> AddOpen (- 1) \<in> set performed \<and> WgDone \<in> set performed) \<and>
      Close s' = Returns s'"
  proof
    assume cl: "Close ?r = Returns s'"
    then obtain ctx where ctx: "cancel ?r = Some ctx"
      and w: "Wait (?r\<lparr>cancelled := insert ctx (cancelled ?r)\<rparr>) = Returns s'"
      by (auto simp: Close_def split: option.splits)
    let ?c = "?r\<lparr>cancelled := insert ctx (cancelled ?r)\<rparr>"
    have cc: "consistent ?c" using cons by (rule consistent_cancel)
    from Wait_finished [OF cc w] have s': "s' = ?c" and z: "serveWg ?c = 0"
      and fin: "\<forall>(performed, rest) \<in> set (drivers ?c).
            rest = [] \<and> AddOpen (- 1) \<in> set performed \<and> WgDone \<in> set performed"
      by simp_all
    from cons ctx have b: "baseCtx ?r = Some ctx" by (simp add: consistent_def)
    have again: "Close ?c = Returns ?c"
      using ctx z by (simp add: Close_def Wait_def insert_absorb)
    from b z fin again show "(\<exists>ctx. baseCtx s' = Some ctx \<and> ctx \<in> cancelled s') \<and> serveWg s' = 0 \<and>
      (\<forall>(performed, rest) \<in> set (drivers s').
         rest = [] \<and> AddOpen (- 1) \<in> set performed \<and> WgDone \<in> set performed) \<and>
      Close s' = Returns s'"
      unfolding s' by simp
  qed
  have b: "Close ?r = Waits s' \<longrightarrow>
      (\<exists>ctx. baseCtx s' = Some ctx \<and> ctx \<in> cancelled s') \<and>
      (\<exists>(performed, rest) \<in> set (drivers s'). WgDone \<notin> set performed)"
  proof
    assume cl: "Close ?r = Waits s'"
    then obtain ctx where ctx: "cancel ?r = Some ctx"
      and w: "Wait (?r\<lparr>cancelled := insert ctx (cancelled ?r)\<rparr>) = Waits s'"
      by (auto simp: Close_def split: option.splits)
    let ?c = "?r\<lparr>cancelled := insert ctx (cancelled ?r)\<rparr>"
    from w have s': "s' = ?c" and nz: "serveWg ?r \<noteq> 0"
      by (auto simp: Wait_def split: if_splits)
    from cons nz have "unfinished ?r \<noteq> 0" by (simp add: consistent_def)
    then have "filter (\<lambda>(performed, rest). WgDone \<notin> set performed) (drivers ?r) \<noteq> []"
      by (simp add: unfinished_def)
    then have ex: "\<exists>(performed, rest) \<in> set (drivers ?r). WgDone \<notin> set performed"
      by (simp add: filter_empty_conv)
    from cons ctx have "baseCtx ?r = Some ctx" by (simp add: consistent_def)
    with ex show "(\<exists>ctx. baseCtx s' = Some ctx \<and> ctx \<in> cancelled s') \<and>
      (\<exists>(performed, rest) \<in> set (drivers s'). WgDone \<notin> set performed)"
      unfolding s' by simp
  qed
  have c: "Wait ?r = Returns s' \<longrightarrow>
      (\<forall>(performed, rest) \<in> set (drivers s').
         rest = [] \<and> AddOpen (- 1) \<in> set performed \<and> WgDone \<in> set performed)"
  proof
    assume "Wait ?r = Returns s'"
    from Wait_finished [OF cons this] show "\<forall>(performed, rest) \<in> set (drivers s').
         rest = [] \<and> AddOpen (- 1) \<in> set performed \<and> WgDone \<in> set performed"
      by blast
  qed
  show ?thesis by (intro conjI a b c)
qed

lemma serve_first_pump_done:
  assumes "\<not> ProxyProto proxy" and "ClientTimeout proxy = 0" and "ServerTimeout proxy = 0"
  shows "serve proxy (\<lambda>ip. ''::1'')
      (TCPConn \<lparr>IP = [127, 0, 0, 1], Port = 8080\<rparr> \<lparr>IP = [127, 0, 0, 1], Port = 50000\<rparr>)
      ''127.0.0.1:9090''
      \<lparr>dial_result = Inr (TCPConn \<lparr>IP = [127, 0, 0, 1], Port = 50001\<rparr>
                                   \<lparr>IP = [127, 0, 0, 1], Port = 9090\<rparr>),
       write_result = None, select_taken = RecvErrIn,
       in_script = [(0, 6, Some EOF)], out_script = []\<rparr> =
     \<lparr>events = [Dial ''127.0.0.1:9090'', LogInfo ''127.0.0.1'' ''127.0.0.1:9090'',
                Go (CopyConn True), Go (CopyConn False), AddOpen (- 1), WgDone],
      pumps = Some ([ReadFrom Back Front 6 (Some EOF), AddBytesIn 6, CloseChan ErrIn,
                     ConnClose Back], []),
      status = Returned\<rparr>"
proof -
  have n: "Itoa 9090 = ''9090''"
    by (simp add: Itoa_def digits_small digits_big)
  from assms show ?thesis
    by (simp add: serve_def copyConn_def timeoutFunc_def IP_String_loopback n)
qed

theorem Close_waits_for_sessions_witness:
  "Close (run (\<lambda>ip. ''::1'')
        [CallProxy '':8080'' ''127.0.0.1:9090'',
         Accepted (TCPConn \<lparr>IP = [127, 0, 0, 1], Port = 8080\<rparr> \<lparr>IP = [127, 0, 0, 1], Port = 50000\<rparr>)
           ''127.0.0.1:9090''
           \<lparr>dial_result = Inr (TCPConn \<lparr>IP = [127, 0, 0, 1], Port = 50001\<rparr>
                                        \<lparr>IP = [127, 0, 0, 1], Port = 9090\<rparr>),
            write_result = None, select_taken = RecvErrIn,
            in_script = [(0, 6, Some EOF)], out_script = []\<rparr>,
         DriverStep 0, DriverStep 0, DriverStep 0, DriverStep 0, DriverStep 0, DriverStep 0]
        (new_proxy ''p'' False 0 0 0 0)) =
     Returns ((run (\<lambda>ip. ''::1'')
        [CallProxy '':8080'' ''127.0.0.1:9090'',
         Accepted (TCPConn \<lparr>IP = [127, 0, 0, 1], Port = 8080\<rparr> \<lparr>IP = [127, 0, 0, 1], Port = 50000\<rparr>)
           ''127.0.0.1:9090''
           \<lparr>dial_result = Inr (TCPConn \<lparr>IP = [127, 0, 0, 1], Port = 50001\<rparr>
                                        \<lparr>IP = [127, 0, 0, 1], Port = 9090\<rparr>),
            write_result = None, select_taken = RecvErrIn,
            in_script = [(0, 6, Some EOF)], out_script = []\<rparr>,
         DriverStep 0, DriverStep 0, DriverStep 0, DriverStep 0, DriverStep 0, DriverStep 0]
        (new_proxy ''p'' False 0 0 0 0))\<lparr>cancelled := {0}\<rparr>)
   \<and> baseCtx (run (\<lambda>ip. ''::1'')
        [CallProxy '':8080'' ''127.0.0.1:9090'',
         Accepted (TCPConn \<lparr>IP = [127, 0, 0, 1], Port = 8080\<rparr> \<lparr>IP = [127, 0, 0, 1], Port = 50000\<rparr>)
           ''127.0.0.1:9090''
           \<lparr>dial_result = Inr (TCPConn \<lparr>IP = [127, 0, 0, 1], Port = 50001\<rparr>
                                        \<lparr>IP = [127, 0, 0, 1], Port = 9090\<rparr>),
            write_result = None, select_taken = RecvErrIn,
            in_script = [(0, 6, Some EOF)], out_script = []\<rparr>,
         DriverStep 0, DriverStep 0, DriverStep 0, DriverStep 0, DriverStep 0, DriverStep 0]
        (new_proxy ''p'' False 0 0 0 0)) = Some 0
   \<and> drivers (run (\<lambda>ip. ''::1'')
        [CallProxy '':8080'' ''127.0.0.1:9090'',
         Accepted (TCPConn \<lparr>IP = [127, 0, 0, 1], Port = 8080\<rparr> \<lparr>IP = [127, 0, 0, 1], Port = 50000\<rparr>)
           ''127.0.0.1:9090''
           \<lparr>dial_result = Inr (TCPConn \<lparr>IP = [127, 0, 0, 1], Port = 50001\<rparr>
                                        \<lparr>IP = [127, 0, 0, 1], Port = 9090\<rparr>),
            write_result = None, select_taken = RecvErrIn,
            in_script = [(0, 6, Some EOF)], out_script = []\<rparr>,
         DriverStep 0, DriverStep 0, DriverStep 0, DriverStep 0, DriverStep 0, DriverStep 0]
        (new_proxy ''p'' False 0 0 0 0)) =
       [([Dial ''127.0.0.1:9090'', LogInfo ''127.0.0.1'' ''127.0.0.1:9090'',
          Go (CopyConn True), Go (CopyConn False), AddOpen (- 1), WgDone], [])]
   \<and> Close ((run (\<lambda>ip. ''::1'')
        [CallProxy '':8080'' ''127.0.0.1:9090'',
         Accepted (TCPConn \<lparr>IP = [127, 0, 0, 1], Port = 8080\<rparr> \<lparr>IP = [127, 0, 0, 1], Port = 50000\<rparr>)
           ''127.0.0.1:9090''
           \<lparr>dial_result = Inr (TCPConn \<lparr>IP = [127, 0, 0, 1], Port = 50001\<rparr>
                                        \<lparr>IP = [127, 0, 0, 1], Port = 9090\<rparr>),
            write_result = None, select_taken = RecvErrIn,
            in_script = [(0, 6, Some EOF)], out_script = []\<rparr>,
         DriverStep 0, DriverStep 0, DriverStep 0, DriverStep 0, DriverStep 0, DriverStep 0]
        (new_proxy ''p'' False 0 0 0 0))\<lparr>cancelled := {0}\<rparr>) =
     Returns ((run (\<lambda>ip. ''::1'')
        [CallProxy '':8080'' ''127.0.0.1:9090'',
         Accepted (TCPConn \<lparr>IP = [127, 0, 0, 1], Port = 8080\<rparr> \<lparr>IP = [127, 0, 0, 1], Port = 50000\<rparr>)
           ''127.0.0.1:9090''
           \<lparr>dial_result = Inr (TCPConn \<lparr>IP = [127, 0, 0, 1], Port = 50001\<rparr>
                                        \<lparr>IP = [127, 0, 0, 1], Port = 9090\<rparr>),
            write_result = None, select_taken = RecvErrIn,
            in_script = [(0, 6, Some EOF)], out_script = []\<rparr>,
         DriverStep 0, DriverStep 0, DriverStep 0, DriverStep 0, DriverStep 0, DriverStep 0]
        (new_proxy ''p'' False 0 0 0 0))\<lparr>cancelled := {0}\<rparr>)
   \<and> Close (run (\<lambda>ip. ''::1'')
        [CallProxy '':8080'' ''127.0.0.1:9090'',
         Accepted (TCPConn \<lparr>IP = [127, 0, 0, 1], Port = 8080\<rparr> \<lparr>IP = [127, 0, 0, 1], Port = 50000\<rparr>)
           ''127.0.0.1:9090''
           \<lparr>dial_result = Inr (TCPConn \<lparr>IP = [127, 0, 0, 1], Port = 50001\<rparr>
                                        \<lparr>IP = [127, 0, 0, 1], Port = 9090\<rparr>),
            write_result = None, select_taken = RecvErrIn,
            in_script = [(0, 6, Some EOF)], out_script = []\<rparr>,
         DriverStep 0, DriverStep 0, DriverStep 0, DriverStep 0]
        (new_proxy ''p'' False 0 0 0 0)) =
     Waits ((run (\<lambda>ip. ''::1'')
        [CallProxy '':8080'' ''127.0.0.1:9090'',
         Accepted (TCPConn \<lparr>IP = [127, 0, 0, 1], Port = 8080\<rparr> \<lparr>IP = [127, 0, 0, 1], Port = 50000\<rparr>)
           ''127.0.0.1:9090''
           \<lparr>dial_result = Inr (TCPConn \<lparr>IP = [127, 0, 0, 1], Port = 50001\<rparr>
                                        \<lparr>IP = [127, 0, 0, 1], Port = 9090\<rparr>),
            write_result = None, select_taken = RecvErrIn,
            in_script = [(0, 6, Some EOF)], out_script = []\<rparr>,
         DriverStep 0, DriverStep 0, DriverStep 0, DriverStep 0]
        (new_proxy ''p'' False 0 0 0 0))\<lparr>cancelled := {0}\<rparr>)
   \<and> drivers (run (\<lambda>ip. ''::1'')
        [CallProxy '':8080'' ''127.0.0.1:9090'',
         Accepted (TCPConn \<lparr>IP = [127, 0, 0, 1], Port = 8080\<rparr> \<lparr>IP = [127, 0, 0, 1], Port = 50000\<rparr>)
           ''127.0.0.1:9090''
           \<lparr>dial_result = Inr (TCPConn \<lparr>IP = [127, 0, 0, 1], Port = 50001\<rparr>
                                        \<lparr>IP = [127, 0, 0, 1], Port = 9090\<rparr>),
            write_result = None, select_taken = RecvErrIn,
            in_script = [(0, 6, Some EOF)], out_script = []\<rparr>,
         DriverStep 0, DriverStep 0, DriverStep 0, DriverStep 0]
        (new_proxy ''p'' False 0 0 0 0)) =
       [([Dial ''127.0.0.1:9090'', LogInfo ''127.0.0.1'' ''127.0.0.1:9090'',
          Go (CopyConn True), Go (CopyConn False)], [AddOpen (- 1), WgDone])]
   \<and> Wait (run (\<lambda>ip. ''::1'')
        [CallProxy '':8080'' ''127.0.0.1:9090'',
         Accepted (TCPConn \<lparr>IP = [127, 0, 0, 1], Port = 8080\<rparr> \<lparr>IP = [127, 0, 0, 1], Port = 50000\<rparr>)
           ''127.0.0.1:9090''
           \<lparr>dial_result = Inr (TCPConn \<lparr>IP = [127, 0, 0, 1], Port = 50001\<rparr>
                                        \<lparr>IP = [127, 0, 0, 1], Port = 9090\<rparr>),
            write_result = None, select_taken = RecvErrIn,
            in_script = [(0, 6, Some EOF)], out_script = []\<rparr>,
         DriverStep 0, DriverStep 0, DriverStep 0, DriverStep 0, DriverStep 0, DriverStep 0]
        (new_proxy ''p'' False 0 0 0 0)) =
     Returns (run (\<lambda>ip. ''::1'')
        [CallProxy '':8080'' ''127.0.0.1:9090'',
         Accepted (TCPConn \<lparr>IP = [127, 0, 0, 1], Port = 8080\<rparr> \<lparr>IP = [127, 0, 0, 1], Port = 50000\<rparr>)
           ''127.0.0.1:9090''
           \<lparr>dial_result = Inr (TCPConn \<lparr>IP = [127, 0, 0, 1], Port = 50001\<rparr>
                                        \<lparr>IP = [127, 0, 0, 1], Port = 9090\<rparr>),
            write_result = None, select_taken = RecvErrIn,
            in_script = [(0, 6, Some EOF)], out_script = []\<rparr>,
         DriverStep 0, DriverStep 0, DriverStep 0, DriverStep 0, DriverStep 0, DriverStep 0]
        (new_proxy ''p'' False 0 0 0 0))"
proof -
  let ?p = "new_proxy ''p'' False 0 0 0 0"
  let ?ip6 = "\<lambda>ip :: 8 word list. ''::1''"
  let ?c = "TCPConn \<lparr>IP = [127, 0, 0, 1], Port = 8080\<rparr> \<lparr>IP = [127, 0, 0, 1], Port = 50000\<rparr>"
  let ?dst = "''127.0.0.1:9090''"
  let ?env = "\<lparr>dial_result = Inr (TCPConn \<lparr>IP = [127, 0, 0, 1], Port = 50001\<rparr>
                                        \<lparr>IP = [127, 0, 0, 1], Port = 9090\<rparr>),
            write_result = None, select_taken = RecvErrIn,
            in_script = [(0, 6, Some EOF)], out_script = []\<rparr>"
  let ?a4 = "[CallProxy '':8080'' ?dst, Accepted ?c ?dst ?env, DriverStep 0, DriverStep 0,
              DriverStep 0, DriverStep 0]"
  let ?a6 = "[CallProxy '':8080'' ?dst, Accepted ?c ?dst ?env, DriverStep 0, DriverStep 0,
              DriverStep 0, DriverStep 0, DriverStep 0, DriverStep 0]"
  let ?own = "[Dial ?dst, LogInfo ''127.0.0.1'' ''127.0.0.1:9090'',
          Go (CopyConn True), Go (CopyConn False), AddOpen (- 1), WgDone]"
  note ev = run_Cons run_Nil accepted_def driver_step_def init_def startStatsTimer_def
          perform_def new_proxy_def serve_first_pump_done
  have f6: "cancel (run ?ip6 ?a6 ?p) = Some 0" "cancelled (run ?ip6 ?a6 ?p) = {}"
    "serveWg (run ?ip6 ?a6 ?p) = 0" "baseCtx (run ?ip6 ?a6 ?p) = Some 0"
    by (simp_all add: ev)
  have d6: "drivers (run ?ip6 ?a6 ?p) = [(?own, [])]"
    by (simp add: ev)
  have f4: "cancel (run ?ip6 ?a4 ?p) = Some 0" "cancelled (run ?ip6 ?a4 ?p) = {}"
    "serveWg (run ?ip6 ?a4 ?p) = 1"
    by (simp_all add: ev)
  have d4: "drivers (run ?ip6 ?a4 ?p) =
      [([Dial ?dst, LogInfo ''127.0.0.1'' ''127.0.0.1:9090'', Go (CopyConn True),
         Go (CopyConn False)], [AddOpen (- 1), WgDone])]"
    by (simp add: ev)
  have c6: "Close (run ?ip6 ?a6 ?p) = Returns ((run ?ip6 ?a6 ?p)\<lparr>cancelled := {0}\<rparr>)"
    by (simp add: Close_def Wait_def f6)
  have c4: "Close (run ?ip6 ?a4 ?p) = Waits ((run ?ip6 ?a4 ?p)\<lparr>cancelled := {0}\<rparr>)"
    by (simp add: Close_def Wait_def f4)
  have w6: "Wait (run ?ip6 ?a6 ?p) = Returns (run ?ip6 ?a6 ?p)"
    by (simp add: Wait_def f6)
  from Close_waits_for_sessions [of ?ip6 ?a6 "''p''" False 0 0 0 0
      "(run ?ip6 ?a6 ?p)\<lparr>cancelled := {0}\<rparr>"] c6
  have again: "Close ((run ?ip6 ?a6 ?p)\<lparr>cancelled := {0}\<rparr>) =
      Returns ((run ?ip6 ?a6 ?p)\<lparr>cancelled := {0}\<rparr>)"
    by blast
  from c6 f6(4) d6 again c4 d4 w6 show ?thesis by simp
qed

text \<open>
  A session whose pump from front to back has ended on \<open>io.EOF\<close>: the driver takes the
  value from \<open>errIn\<close>, runs its deferred function and is done, and \<open>Close\<close> returns. The
  pump from back to front is still in its \<open>ReadFrom\<close>, and in no run of the session has
  the front-end socket been closed.
\<close>

theorem Close_returns_before_pumps_counterexample:
  "Close (run (\<lambda>ip. ''::1'')
        [CallProxy '':8080'' ''127.0.0.1:9090'',
         Accepted (TCPConn \<lparr>IP = [127, 0, 0, 1], Port = 8080\<rparr> \<lparr>IP = [127, 0, 0, 1], Port = 50000\<rparr>)
           ''127.0.0.1:9090''
           \<lparr>dial_result = Inr (TCPConn \<lparr>IP = [127, 0, 0, 1], Port = 50001\<rparr>
                                        \<lparr>IP = [127, 0, 0, 1], Port = 9090\<rparr>),
            write_result = None, select_taken = RecvErrIn,
            in_script = [(0, 6, Some EOF)], out_script = []\<rparr>,
         DriverStep 0, DriverStep 0, DriverStep 0, DriverStep 0, DriverStep 0, DriverStep 0]
        (new_proxy ''p'' False 0 0 0 0)) =
     Returns ((run (\<lambda>ip. ''::1'')
        [CallProxy '':8080'' ''127.0.0.1:9090'',
         Accepted (TCPConn \<lparr>IP = [127, 0, 0, 1], Port = 8080\<rparr> \<lparr>IP = [127, 0, 0, 1], Port = 50000\<rparr>)
           ''127.0.0.1:9090''
           \<lparr>dial_result = Inr (TCPConn \<lparr>IP = [127, 0, 0, 1], Port = 50001\<rparr>
                                        \<lparr>IP = [127, 0, 0, 1], Port = 9090\<rparr>),
            write_result = None, select_taken = RecvErrIn,
            in_script = [(0, 6, Some EOF)], out_script = []\<rparr>,
         DriverStep 0, DriverStep 0, DriverStep 0, DriverStep 0, DriverStep 0, DriverStep 0]
        (new_proxy ''p'' False 0 0 0 0))\<lparr>cancelled := {0}\<rparr>)
   \<and> pumps (serve (new_proxy ''p'' False 0 0 0 0) (\<lambda>ip. ''::1'')
        (TCPConn \<lparr>IP = [127, 0, 0, 1], Port = 8080\<rparr> \<lparr>IP = [127, 0, 0, 1], Port = 50000\<rparr>)
        ''127.0.0.1:9090''
        \<lparr>dial_result = Inr (TCPConn \<lparr>IP = [127, 0, 0, 1], Port = 50001\<rparr>
                                     \<lparr>IP = [127, 0, 0, 1], Port = 9090\<rparr>),
         write_result = None, select_taken = RecvErrIn,
         in_script = [(0, 6, Some EOF)], out_script = []\<rparr>) =
       Some ([ReadFrom Back Front 6 (Some EOF), AddBytesIn 6, CloseChan ErrIn, ConnClose Back], [])
   \<and> copyConn Front Back ErrOut (timeoutFunc 0 (SetWriteDeadline Front)) False [] = ([], False)
   \<and> \<not> (\<exists>t \<in> session_traces (serve (new_proxy ''p'' False 0 0 0 0) (\<lambda>ip. ''::1'')
        (TCPConn \<lparr>IP = [127, 0, 0, 1], Port = 8080\<rparr> \<lparr>IP = [127, 0, 0, 1], Port = 50000\<rparr>)
        ''127.0.0.1:9090''
        \<lparr>dial_result = Inr (TCPConn \<lparr>IP = [127, 0, 0, 1], Port = 50001\<rparr>
                                     \<lparr>IP = [127, 0, 0, 1], Port = 9090\<rparr>),
         write_result = None, select_taken = RecvErrIn,
         in_script = [(0, 6, Some EOF)], out_script = []\<rparr>). ConnClose Front \<in> set t)"
proof -
  let ?p = "new_proxy ''p'' False 0 0 0 0"
  let ?ip6 = "\<lambda>ip :: 8 word list. ''::1''"
  let ?c = "TCPConn \<lparr>IP = [127, 0, 0, 1], Port = 8080\<rparr> \<lparr>IP = [127, 0, 0, 1], Port = 50000\<rparr>"
  let ?dst = "''127.0.0.1:9090''"
  let ?env = "\<lparr>dial_result = Inr (TCPConn \<lparr>IP = [127, 0, 0, 1], Port = 50001\<rparr>
                                     \<lparr>IP = [127, 0, 0, 1], Port = 9090\<rparr>),
         write_result = None, select_taken = RecvErrIn,
         in_script = [(0, 6, Some EOF)], out_script = []\<rparr>"
  let ?a6 = "[CallProxy '':8080'' ?dst, Accepted ?c ?dst ?env, DriverStep 0, DriverStep 0,
              DriverStep 0, DriverStep 0, DriverStep 0, DriverStep 0]"
  note ev = run_Cons run_Nil accepted_def driver_step_def init_def startStatsTimer_def
          perform_def new_proxy_def serve_first_pump_done
  have f: "cancel (run ?ip6 ?a6 ?p) = Some 0" "cancelled (run ?ip6 ?a6 ?p) = {}"
    "serveWg (run ?ip6 ?a6 ?p) = 0"
    by (simp_all add: ev)
  have c: "Close (run ?ip6 ?a6 ?p) = Returns ((run ?ip6 ?a6 ?p)\<lparr>cancelled := {0}\<rparr>)"
    by (simp add: Close_def Wait_def f)
  have s: "serve ?p ?ip6 ?c ?dst ?env =
     \<lparr>events = [Dial ?dst, LogInfo ''127.0.0.1'' ''127.0.0.1:9090'',
                Go (CopyConn True), Go (CopyConn False), AddOpen (- 1), WgDone],
      pumps = Some ([ReadFrom Back Front 6 (Some EOF), AddBytesIn 6, CloseChan ErrIn,
                     ConnClose Back], []),
      status = Returned\<rparr>"
    by (rule serve_first_pump_done) (simp_all add: new_proxy_def)
  have o: "copyConn Front Back ErrOut (timeoutFunc 0 (SetWriteDeadline Front)) False [] = ([], False)"
    by (simp add: copyConn_def)
  have n: "\<not> (\<exists>t \<in> session_traces (serve ?p ?ip6 ?c ?dst ?env). ConnClose Front \<in> set t)"
  proof
    assume "\<exists>t \<in> session_traces (serve ?p ?ip6 ?c ?dst ?env). ConnClose Front \<in> set t"
    then obtain t where "t \<in> session_traces (serve ?p ?ip6 ?c ?dst ?env)" "ConnClose Front \<in> set t"
      by blast
    from session_traces_set [OF this] show False
      by (simp add: s)
  qed
  from c s o n show ?thesis by simp
qed

end
